theory Spec2Isabelle
  imports Complex_Main
begin

section \<open>JavaScript values\<close>

text \<open>
  The handlers of \<^verbatim>\<open>routes/studentRoutes.js\<close> and of the authentication router read
  duck-typed request objects. A field of \<^verbatim>\<open>req.body\<close>, \<^verbatim>\<open>req.query\<close> or
  \<^verbatim>\<open>req.params\<close> is \<^verbatim>\<open>undefined\<close>, a string, a boolean or a number (nested
  objects and arrays are outside the model). Numbers are IEEE doubles: the model keeps
  \<^verbatim>\<open>NaN\<close> and the two infinities apart from the finite values, and idealises a
  finite double as a real. Strings are lists of code units, here the 8-bit fragment.
\<close>

datatype jsnum = NaN | PosInf | NegInf | Fin real

datatype jsval = JUndefined | JString string | JBool bool | JNumber jsnum

type_synonym jsobj = "string \<Rightarrow> jsval"

text \<open>\<^verbatim>\<open>Number.isFinite(v)\<close>: true only of a number that is neither NaN nor infinite.\<close>

fun isFinite :: "jsval \<Rightarrow> bool" where
  "isFinite (JNumber (Fin x)) = True"
| "isFinite v = False"

text \<open>The JavaScript relations \<^verbatim>\<open>a >= b\<close> and \<^verbatim>\<open>a <= b\<close> on numbers: false when
  an operand is NaN.\<close>

fun num_le :: "jsnum \<Rightarrow> jsnum \<Rightarrow> bool" where
  "num_le NaN b = False"
| "num_le a NaN = False"
| "num_le NegInf b = True"
| "num_le a PosInf = True"
| "num_le (Fin x) (Fin y) = (x \<le> y)"
| "num_le a b = False"

definition num_ge :: "jsnum \<Rightarrow> jsnum \<Rightarrow> bool" where
  "num_ge a b = num_le b a"

text \<open>Truthiness, as \<^verbatim>\<open>if (v)\<close> and \<^verbatim>\<open>!v\<close> read a value.\<close>

fun truthy :: "jsval \<Rightarrow> bool" where
  "truthy JUndefined = False"
| "truthy (JString s) = (s \<noteq> [])"
| "truthy (JBool b) = b"
| "truthy (JNumber NaN) = False"
| "truthy (JNumber (Fin x)) = (x \<noteq> 0)"
| "truthy (JNumber n) = True"

subsection \<open>Strings\<close>

text \<open>White space as \<^verbatim>\<open>String.prototype.trim\<close> and the regular expression class
  \<^verbatim>\<open>\s\<close> read it, among the code units below 256: tab, line feed, vertical tab, form
  feed, carriage return, space and the no-break space.\<close>

definition isWhiteSpace :: "char \<Rightarrow> bool" where
  "isWhiteSpace c = (c \<in> set [CHR 0x09, CHR 0x0A, CHR 0x0B, CHR 0x0C, CHR 0x0D, CHR 0x20, CHR 0xA0])"

definition trim :: "string \<Rightarrow> string" where
  "trim s = rev (dropWhile isWhiteSpace (rev (dropWhile isWhiteSpace s)))"

definition toLowerChar :: "char \<Rightarrow> char" where
  "toLowerChar c =
     (let n = (of_char c :: nat)
      in if (65 \<le> n \<and> n \<le> 90) \<or> (192 \<le> n \<and> n \<le> 222 \<and> n \<noteq> 215)
         then char_of (n + 32) else c)"

definition toLowerCase :: "string \<Rightarrow> string" where
  "toLowerCase s = map toLowerChar s"

definition isDigit :: "char \<Rightarrow> bool" where
  "isDigit c = (c \<in> set ''0123456789'')"

definition isLetter :: "char \<Rightarrow> bool" where
  "isLetter c = (c \<in> set ''abcdefghijklmnopqrstuvwxyzABCDEFGHIJKLMNOPQRSTUVWXYZ'')"

text \<open>\<^verbatim>\<open>sanitizeString = (s) => (typeof s === 'string' ? s.trim() : s)\<close>\<close>

fun sanitizeString :: "jsval \<Rightarrow> jsval" where
  "sanitizeString (JString s) = JString (trim s)"
| "sanitizeString v = v"

text \<open>\<^verbatim>\<open>a || b\<close>\<close>

definition js_or :: "jsval \<Rightarrow> jsval \<Rightarrow> jsval" where
  "js_or a b = (if truthy a then a else b)"

section \<open>Stored documents and what the code calls from outside\<close>

text \<open>A stored student, after Mongoose has cast the paths of \<^verbatim>\<open>StudentSchema\<close>. The
  timestamps are left out: only the store's sort reads them.\<close>

record student =
  student_id :: string
  name :: string
  rollNumber :: string
  email :: string
  department :: string
  gpa :: real

text \<open>A stored user (\<^verbatim>\<open>UserSchema\<close>).\<close>

record user =
  user_id :: string
  username :: string
  user_email :: string
  password :: string
  role :: string
  isActive :: bool

text \<open>
  The functions of the JavaScript runtime and of the libraries (validator.js, bcryptjs,
  the MongoDB driver) that the handlers call and whose code is not part of the
  repository. They are parameters of the model: every property below holds for all of
  them, unless it names an assumption.
\<close>

record ext =
  parseInt10 :: "string \<Rightarrow> jsnum"
  parseFloat :: "string \<Rightarrow> jsnum"
  stringToNumber :: "string \<Rightarrow> jsnum"
  numberToString :: "jsnum \<Rightarrow> string"
  isEmail :: "string \<Rightarrow> bool"
  normalizeEmail :: "string \<Rightarrow> jsval"
  validator_isMongoId :: "string \<Rightarrow> bool"
  genSalt :: "nat \<Rightarrow> string"
  bcrypt_hash :: "string \<Rightarrow> string \<Rightarrow> string option"
  bcrypt_compare :: "string \<Rightarrow> string \<Rightarrow> bool"
  textSearch :: "jsval \<Rightarrow> student \<Rightarrow> bool"
  sortDocs :: "jsval \<times> int \<Rightarrow> student list \<Rightarrow> student list"
  otherObjectId :: "string \<Rightarrow> string option"

text \<open>\<^verbatim>\<open>Number(v)\<close> and \<^verbatim>\<open>parseFloat(v)\<close> on a value: a string goes to the runtime's
  conversion.\<close>

fun Number :: "ext \<Rightarrow> jsval \<Rightarrow> jsnum" where
  "Number E JUndefined = NaN"
| "Number E (JString s) = stringToNumber E s"
| "Number E (JBool b) = Fin (if b then 1 else 0)"
| "Number E (JNumber n) = n"

fun js_parseFloat :: "ext \<Rightarrow> jsval \<Rightarrow> jsnum" where
  "js_parseFloat E (JString s) = parseFloat E s"
| "js_parseFloat E (JNumber n) = n"
| "js_parseFloat E v = NaN"

section \<open>express-validator\<close>

text \<open>
  A validation chain (\<^verbatim>\<open>body('name').trim().notEmpty()...\<close>) names a field of one
  request location and lists sanitizers and validators. Run as middleware, the chain
  reads the field, hands each standard validator and sanitizer the field's value as a
  string, writes what a sanitizer returns back into the request, and records a message
  for each validator that fails; nothing stops at the first failure. The list handler
  depends on the write-back: it reads \<^verbatim>\<open>req.query.page\<close> as the number that
  \<^verbatim>\<open>toInt()\<close> left there. An error is kept as its message.
\<close>

record request =
  req_body :: jsobj
  req_query :: jsobj
  req_params :: jsobj

datatype location = Body | Query | Params

datatype vitem =
    Sanitizer "string \<Rightarrow> jsval"
  | StdValidator "string \<Rightarrow> bool" string
  | CustomValidator "jsval \<Rightarrow> request \<Rightarrow> string option"

record chain =
  chain_location :: location
  chain_field :: string
  chain_optional :: bool
  chain_items :: "vitem list"

definition body :: "string \<Rightarrow> vitem list \<Rightarrow> chain" where
  "body f its = \<lparr>chain_location = Body, chain_field = f, chain_optional = False, chain_items = its\<rparr>"

definition query :: "string \<Rightarrow> vitem list \<Rightarrow> chain" where
  "query f its = \<lparr>chain_location = Query, chain_field = f, chain_optional = False, chain_items = its\<rparr>"

definition param :: "string \<Rightarrow> vitem list \<Rightarrow> chain" where
  "param f its = \<lparr>chain_location = Params, chain_field = f, chain_optional = False, chain_items = its\<rparr>"

definition optional :: "chain \<Rightarrow> chain" where
  "optional c = c\<lparr>chain_optional := True\<rparr>"

fun getField :: "request \<Rightarrow> location \<Rightarrow> string \<Rightarrow> jsval" where
  "getField req Body f = req_body req f"
| "getField req Query f = req_query req f"
| "getField req Params f = req_params req f"

fun setField :: "request \<Rightarrow> location \<Rightarrow> string \<Rightarrow> jsval \<Rightarrow> request" where
  "setField req Body f v = req\<lparr>req_body := (req_body req)(f := v)\<rparr>"
| "setField req Query f v = req\<lparr>req_query := (req_query req)(f := v)\<rparr>"
| "setField req Params f v = req\<lparr>req_params := (req_params req)(f := v)\<rparr>"

text \<open>The library's \<^verbatim>\<open>toString\<close> of a field value: the empty string for
  \<^verbatim>\<open>undefined\<close> and NaN.\<close>

fun toString :: "ext \<Rightarrow> jsval \<Rightarrow> string" where
  "toString E JUndefined = []"
| "toString E (JString s) = s"
| "toString E (JBool b) = (if b then ''true'' else ''false'')"
| "toString E (JNumber NaN) = []"
| "toString E (JNumber n) = numberToString E n"

fun run_item :: "ext \<Rightarrow> location \<Rightarrow> string \<Rightarrow> vitem \<Rightarrow> request \<times> string list \<Rightarrow> request \<times> string list" where
  "run_item E l f (Sanitizer g) (req, errs) =
     (setField req l f (g (toString E (getField req l f))), errs)"
| "run_item E l f (StdValidator ok m) (req, errs) =
     (req, if ok (toString E (getField req l f)) then errs else errs @ [m])"
| "run_item E l f (CustomValidator g) (req, errs) =
     (req, case g (getField req l f) req of None \<Rightarrow> errs | Some m \<Rightarrow> errs @ [m])"

definition run_chain :: "ext \<Rightarrow> chain \<Rightarrow> request \<times> string list \<Rightarrow> request \<times> string list" where
  "run_chain E c st =
     (if chain_optional c \<and> getField (fst st) (chain_location c) (chain_field c) = JUndefined
      then st
      else fold (run_item E (chain_location c) (chain_field c)) (chain_items c) st)"

text \<open>The chains of a route run in the order of the array; \<^verbatim>\<open>validationResult(req)\<close>
  is the second component.\<close>

definition run_chains :: "ext \<Rightarrow> chain list \<Rightarrow> request \<Rightarrow> request \<times> string list" where
  "run_chains E cs req = fold (run_chain E) cs (req, [])"

subsection \<open>The library's validators and sanitizers used by the routes\<close>

definition invalid_value :: string where
  "invalid_value = ''Invalid value''"

definition withMessage :: "vitem \<Rightarrow> string \<Rightarrow> vitem" where
  "withMessage i m = (case i of StdValidator ok d \<Rightarrow> StdValidator ok m | other \<Rightarrow> other)"

definition trim_s :: vitem where
  "trim_s = Sanitizer (\<lambda>s. JString (trim s))"

definition toInt :: "ext \<Rightarrow> vitem" where
  "toInt E = Sanitizer (\<lambda>s. JNumber (parseInt10 E s))"

definition normalizeEmail_s :: "ext \<Rightarrow> vitem" where
  "normalizeEmail_s E = Sanitizer (normalizeEmail E)"

definition notEmpty :: vitem where
  "notEmpty = StdValidator (\<lambda>s. s \<noteq> []) invalid_value"

definition isLength :: "nat \<Rightarrow> nat option \<Rightarrow> vitem" where
  "isLength lo hi = StdValidator
     (\<lambda>s. lo \<le> length s \<and> (case hi of None \<Rightarrow> True | Some h \<Rightarrow> length s \<le> h)) invalid_value"

definition isEmail_v :: "ext \<Rightarrow> vitem" where
  "isEmail_v E = StdValidator (isEmail E) invalid_value"

text \<open>\<^verbatim>\<open>matches(/^[a-z0-9-]+$/i)\<close> and \<^verbatim>\<open>matches(/^[a-zA-Z0-9_]+$/)\<close>: one character
  or more, each of the class.\<close>

definition matches_class :: "(char \<Rightarrow> bool) \<Rightarrow> vitem" where
  "matches_class cls = StdValidator (\<lambda>s. s \<noteq> [] \<and> list_all cls s) invalid_value"

definition rollChar :: "char \<Rightarrow> bool" where
  "rollChar c = (isLetter c \<or> isDigit c \<or> c = CHR ''-'')"

definition usernameChar :: "char \<Rightarrow> bool" where
  "usernameChar c = (isLetter c \<or> isDigit c \<or> c = CHR ''_'')"

text \<open>\<^verbatim>\<open>isMongoId()\<close>: the library's test of the string.\<close>

definition isMongoId :: "ext \<Rightarrow> vitem" where
  "isMongoId E = StdValidator (validator_isMongoId E) invalid_value"

text \<open>The syntax of an ObjectId: 24 hexadecimal digits.\<close>

definition isHexChar :: "char \<Rightarrow> bool" where
  "isHexChar c = (c \<in> set ''0123456789abcdefABCDEF'')"

definition isObjectIdHex :: "string \<Rightarrow> bool" where
  "isObjectIdHex s = (list_all isHexChar s \<and> length s = 24)"

text \<open>
  \<^verbatim>\<open>isFloat(str, {min, max})\<close> of validator.js: the strings \<^verbatim>\<open>''\<close>, \<^verbatim>\<open>.\<close>,
  \<^verbatim>\<open>,\<close>, \<^verbatim>\<open>-\<close> and \<^verbatim>\<open>+\<close> are refused; the string must match
  \<^verbatim>\<open>^[-+]?[0-9]*(\.[0-9]*)?([eE][+-]?[0-9]+)?$\<close>; and
  \<^verbatim>\<open>parseFloat(str.replace(',', '.'))\<close> must lie between the bounds.
\<close>

definition skipSign :: "string \<Rightarrow> string" where
  "skipSign s = (case s of [] \<Rightarrow> [] | c # r \<Rightarrow> if c = CHR ''-'' \<or> c = CHR ''+'' then r else s)"

definition float_regex_test :: "string \<Rightarrow> bool" where
  "float_regex_test s =
     (let s2 = dropWhile isDigit (skipSign s);
          s3 = (case s2 of [] \<Rightarrow> [] | c # r \<Rightarrow> if c = CHR ''.'' then dropWhile isDigit r else s2)
      in case s3 of
           [] \<Rightarrow> True
         | c # r \<Rightarrow> (c = CHR ''e'' \<or> c = CHR ''E'') \<and> skipSign r \<noteq> [] \<and> list_all isDigit (skipSign r))"

fun replace_comma :: "string \<Rightarrow> string" where
  "replace_comma [] = []"
| "replace_comma (c # r) = (if c = CHR '','' then CHR ''.'' # r else c # replace_comma r)"

definition isFloat_test :: "ext \<Rightarrow> real \<Rightarrow> real \<Rightarrow> string \<Rightarrow> bool" where
  "isFloat_test E lo hi str =
     (if str = [] \<or> str = ''.'' \<or> str = '','' \<or> str = ''-'' \<or> str = ''+'' then False
      else let v = parseFloat E (replace_comma str)
           in float_regex_test str \<and> num_ge v (Fin lo) \<and> num_le v (Fin hi))"

definition isFloat :: "ext \<Rightarrow> real \<Rightarrow> real \<Rightarrow> vitem" where
  "isFloat E lo hi = StdValidator (isFloat_test E lo hi) invalid_value"

section \<open>The student store\<close>

text \<open>
  The collection is the list of its documents. What \<^verbatim>\<open>models/Student.js\<close> declares
  is modelled path by path: the setters (\<^verbatim>\<open>trim\<close>, \<^verbatim>\<open>lowercase\<close>) applied when a
  value is cast, the validators (\<^verbatim>\<open>required\<close>, \<^verbatim>\<open>minlength\<close>, \<^verbatim>\<open>maxlength\<close>,
  \<^verbatim>\<open>match\<close>, \<^verbatim>\<open>min\<close>, \<^verbatim>\<open>max\<close>) and the two unique indexes.
\<close>

datatype error = ValidationError | DuplicateKey string | CastError | BcryptError

text \<open>The object handed to \<^verbatim>\<open>new Student({...})\<close> and to \<^verbatim>\<open>$set\<close>.\<close>

record student_paths =
  p_name :: jsval
  p_rollNumber :: jsval
  p_email :: jsval
  p_department :: jsval
  p_gpa :: jsnum

text \<open>Mongoose's cast of a value to a String path.\<close>

fun cast_string :: "ext \<Rightarrow> jsval \<Rightarrow> string option" where
  "cast_string E JUndefined = None"
| "cast_string E (JString s) = Some s"
| "cast_string E (JBool b) = Some (if b then ''true'' else ''false'')"
| "cast_string E (JNumber n) = Some (numberToString E n)"

text \<open>\<^verbatim>\<open>emailRegex = /^[^\s@]+@[^\s@]+\.[^\s@]+$/\<close>: no white space, one \<^verbatim>\<open>@\<close>, something
  before it, and after it a dot that is neither first nor last.\<close>

definition emailRegex_test :: "string \<Rightarrow> bool" where
  "emailRegex_test s =
     (let local_part = takeWhile (\<lambda>c. c \<noteq> CHR ''@'') s;
          domain = drop 1 (dropWhile (\<lambda>c. c \<noteq> CHR ''@'') s)
      in list_all (\<lambda>c. \<not> isWhiteSpace c) s \<and> count_list s CHR ''@'' = 1
         \<and> local_part \<noteq> [] \<and> CHR ''.'' \<in> set (butlast (drop 1 domain)))"

definition name_ok :: "string \<Rightarrow> bool" where
  "name_ok s = (s \<noteq> [] \<and> 2 \<le> length s \<and> length s \<le> 100)"

definition rollNumber_ok :: "string \<Rightarrow> bool" where
  "rollNumber_ok s = (s \<noteq> [] \<and> list_all rollChar s)"

definition email_ok :: "string \<Rightarrow> bool" where
  "email_ok s = (s \<noteq> [] \<and> emailRegex_test s)"

definition department_ok :: "string \<Rightarrow> bool" where
  "department_ok s = (s \<noteq> [] \<and> length s \<le> 100)"

text \<open>The gpa path: \<^verbatim>\<open>type: Number, required, min: [0, ...], max: [4.0, ...]\<close>. The cast
  refuses NaN; the two validators compare.\<close>

definition gpa_ok :: "jsnum \<Rightarrow> bool" where
  "gpa_ok g = (g \<noteq> NaN \<and> num_ge g (Fin 0) \<and> num_le g (Fin 4))"

text \<open>Cast and validation of the five paths: the document to store, or a validation error.\<close>

definition cast_student :: "ext \<Rightarrow> string \<Rightarrow> student_paths \<Rightarrow> error + student" where
  "cast_student E oid ps =
     (case (map_option trim (cast_string E (p_name ps)),
            map_option (\<lambda>s. toLowerCase (trim s)) (cast_string E (p_rollNumber ps)),
            map_option (\<lambda>s. trim (toLowerCase s)) (cast_string E (p_email ps)),
            map_option trim (cast_string E (p_department ps)),
            p_gpa ps) of
        (Some n, Some r, Some e, Some d, Fin g) \<Rightarrow>
          if name_ok n \<and> rollNumber_ok r \<and> email_ok e \<and> department_ok d \<and> gpa_ok (Fin g)
          then Inr \<lparr>student_id = oid, name = n, rollNumber = r, email = e, department = d, gpa = g\<rparr>
          else Inl ValidationError
      | other \<Rightarrow> Inl ValidationError)"

text \<open>The unique indexes on rollNumber and email, against the documents with another id.
  The field reported when both collide is the store's choice; rollNumber is taken here.\<close>

definition duplicate_key :: "student \<Rightarrow> student list \<Rightarrow> string option" where
  "duplicate_key s db =
     (let others = filter (\<lambda>d. student_id d \<noteq> student_id s) db
      in if list_ex (\<lambda>d. rollNumber d = rollNumber s) others then Some ''rollNumber''
         else if list_ex (\<lambda>d. email d = email s) others then Some ''email''
         else None)"

text \<open>\<^verbatim>\<open>new Student({...}).save()\<close>, with the id the driver generated.\<close>

definition save_student :: "ext \<Rightarrow> string \<Rightarrow> student_paths \<Rightarrow> student list \<Rightarrow> error + student list" where
  "save_student E oid ps db =
     (case cast_student E oid ps of
        Inl e \<Rightarrow> Inl e
      | Inr s \<Rightarrow> (case duplicate_key s db of
                   Some f \<Rightarrow> Inl (DuplicateKey f)
                 | None \<Rightarrow> Inr (db @ [s])))"

text \<open>The cast of a route parameter to an ObjectId: a string of 24 hexadecimal digits is
  read without regard to case; what the driver makes of another string is its own.\<close>

fun castObjectId :: "ext \<Rightarrow> jsval \<Rightarrow> string option" where
  "castObjectId E (JString s) = (if isObjectIdHex s then Some (toLowerCase s) else otherObjectId E s)"
| "castObjectId E v = None"

text \<open>\<^verbatim>\<open>Student.findByIdAndUpdate(id, {$set: ...}, {new: true, runValidators: true})\<close>:
  the updated document, or \<^verbatim>\<open>null\<close> when no document has the id.\<close>

definition findByIdAndUpdate :: "ext \<Rightarrow> jsval \<Rightarrow> student_paths \<Rightarrow> student list \<Rightarrow> error + (student option \<times> student list)" where
  "findByIdAndUpdate E idv ps db =
     (case castObjectId E idv of
        None \<Rightarrow> Inl CastError
      | Some oid \<Rightarrow>
         (case cast_student E oid ps of
            Inl e \<Rightarrow> Inl e
          | Inr s \<Rightarrow>
             if \<not> list_ex (\<lambda>d. student_id d = oid) db then Inr (None, db)
             else (case duplicate_key s db of
                     Some f \<Rightarrow> Inl (DuplicateKey f)
                   | None \<Rightarrow> Inr (Some s, map (\<lambda>d. if student_id d = oid then s else d) db))))"

text \<open>\<^verbatim>\<open>Student.findByIdAndDelete(id)\<close>: the deleted document or \<^verbatim>\<open>null\<close>.\<close>

definition findByIdAndDelete :: "ext \<Rightarrow> jsval \<Rightarrow> student list \<Rightarrow> error + (student option \<times> student list)" where
  "findByIdAndDelete E idv db =
     (case castObjectId E idv of
        None \<Rightarrow> Inl CastError
      | Some oid \<Rightarrow> Inr (find (\<lambda>d. student_id d = oid) db, filter (\<lambda>d. student_id d \<noteq> oid) db))"

text \<open>The query filter the list handler builds, and the documents it selects.\<close>

record gpa_range =
  gte :: "jsval option"
  lte :: "jsval option"

record student_filter =
  text_search :: "jsval option"
  filter_department :: "jsval option"
  filter_gpa :: "gpa_range option"

definition matches_gpa :: "ext \<Rightarrow> gpa_range \<Rightarrow> student \<Rightarrow> bool" where
  "matches_gpa E r s =
     ((case gte r of None \<Rightarrow> True | Some v \<Rightarrow> num_ge (Fin (gpa s)) (Number E v))
      \<and> (case lte r of None \<Rightarrow> True | Some v \<Rightarrow> num_le (Fin (gpa s)) (Number E v)))"

definition matches_filter :: "ext \<Rightarrow> student_filter \<Rightarrow> student \<Rightarrow> bool" where
  "matches_filter E flt s =
     ((case text_search flt of None \<Rightarrow> True | Some v \<Rightarrow> textSearch E v s)
      \<and> (case filter_department flt of None \<Rightarrow> True | Some v \<Rightarrow> cast_string E v = Some (department s))
      \<and> (case filter_gpa flt of None \<Rightarrow> True | Some r \<Rightarrow> matches_gpa E r s))"

definition countDocuments :: "ext \<Rightarrow> student_filter \<Rightarrow> student list \<Rightarrow> nat" where
  "countDocuments E flt db = length (filter (matches_filter E flt) db)"

text \<open>\<^verbatim>\<open>Student.find(filter).sort(sort).skip(skip).limit(limit)\<close>\<close>

definition find_students :: "ext \<Rightarrow> student_filter \<Rightarrow> jsval \<times> int \<Rightarrow> real \<Rightarrow> real \<Rightarrow> student list \<Rightarrow> student list" where
  "find_students E flt srt skip lmt db =
     take (nat \<lfloor>lmt\<rfloor>) (drop (nat \<lfloor>skip\<rfloor>) (sortDocs E srt (filter (matches_filter E flt) db)))"

section \<open>The responses\<close>

record pagination =
  page :: real
  limit :: real
  total :: nat
  totalPages :: int

datatype locals =
    StudentsView string "student list" pagination "(string \<times> jsval) list" jsval
  | FormView string "string list" jsobj
  | ErrorView string string nat

text \<open>\<^verbatim>\<open>res.status(n).render(view, locals)\<close>, \<^verbatim>\<open>res.redirect(url)\<close>, or an error
  handed to \<^verbatim>\<open>next\<close> by \<^verbatim>\<open>asyncHandler\<close>.\<close>

datatype response = Render nat string locals | Redirect string | Next error

section \<open>The student router\<close>

subsection \<open>buildSort\<close>

text \<open>
  \<^verbatim>\<open>
  const buildSort = (sortBy, order) => {
    const allowed = ['name', 'rollNumber', 'email', 'department', 'gpa', 'createdAt'];
    const key = allowed.includes(sortBy) ? sortBy : 'createdAt';
    const dir = order === 'asc' ? 1 : -1;
    return { [key]: dir };
  };
  \<close>
  The object with one computed key is the pair of the key and its direction.
\<close>

definition allowed :: "jsval list" where
  "allowed = [JString ''name'', JString ''rollNumber'', JString ''email'',
     JString ''department'', JString ''gpa'', JString ''createdAt'']"

definition buildSort :: "jsval \<Rightarrow> jsval \<Rightarrow> jsval \<times> int" where
  "buildSort sortBy order =
     (let key = (if sortBy \<in> set allowed then sortBy else JString ''createdAt'');
          dir = (if order = JString ''asc'' then 1 else - 1)
      in (key, dir))"

subsection \<open>validateDepartment and the student validators\<close>

text \<open>
  \<^verbatim>\<open>
  const validateDepartment = (value, { req }) => {
    if (value === 'custom') {
      if (!req.body.customDepartment || req.body.customDepartment.trim() === '') throw ...
      if (req.body.customDepartment.trim().length < 2) throw ...
      if (req.body.customDepartment.trim().length > 100) throw ...
    }
    return true;
  };
  \<close>
  A throw is the message it carries. On a truthy value that is not a string, the call of
  \<^verbatim>\<open>trim\<close> throws a TypeError, which the library records like any other throw.
\<close>

definition msg_custom_required :: string where
  "msg_custom_required =
     ''Custom department name is required when selecting '' @ [CHR 0x22] @ ''Custom Department'' @ [CHR 0x22]"

definition msg_custom_short :: string where
  "msg_custom_short = ''Custom department name must be at least 2 characters long''"

definition msg_custom_long :: string where
  "msg_custom_long = ''Custom department name must be at most 100 characters long''"

definition msg_not_a_function :: string where
  "msg_not_a_function = ''req.body.customDepartment.trim is not a function''"

definition validateDepartment :: "jsval \<Rightarrow> request \<Rightarrow> string option" where
  "validateDepartment v req =
     (if v = JString ''custom'' then
        (case req_body req ''customDepartment'' of
           JString cd \<Rightarrow>
             if cd = [] \<or> trim cd = [] then Some msg_custom_required
             else if length (trim cd) < 2 then Some msg_custom_short
             else if length (trim cd) > 100 then Some msg_custom_long
             else None
         | other \<Rightarrow> if \<not> truthy other then Some msg_custom_required else Some msg_not_a_function)
      else None)"

definition studentValidators :: "ext \<Rightarrow> chain list" where
  "studentValidators E =
     [body ''name'' [trim_s, withMessage notEmpty ''Name is required'', isLength 2 (Some 100)],
      body ''rollNumber'' [trim_s, withMessage notEmpty ''Roll number is required'',
        withMessage (matches_class rollChar) ''Roll number must be alphanumeric''],
      body ''email'' [trim_s, withMessage (isEmail_v E) ''Valid email is required'', normalizeEmail_s E],
      body ''department'' [trim_s, withMessage notEmpty ''Department is required'',
        CustomValidator validateDepartment],
      body ''gpa'' [withMessage (isFloat E 0 4) ''GPA must be between 0.0 and 4.0'']]"

subsection \<open>The list\<close>

definition listValidators :: "ext \<Rightarrow> chain list" where
  "listValidators E =
     [optional (query ''page'' [toInt E]),
      optional (query ''limit'' [toInt E]),
      optional (query ''q'' [trim_s]),
      optional (query ''department'' [trim_s]),
      optional (query ''minGpa'' [trim_s]),
      optional (query ''maxGpa'' [trim_s]),
      optional (query ''sortBy'' [trim_s]),
      optional (query ''order'' [trim_s])]"

text \<open>The value of a finite number (read only under \<^verbatim>\<open>Number.isFinite\<close>).\<close>

fun num_value :: "jsval \<Rightarrow> real" where
  "num_value (JNumber (Fin x)) = x"
| "num_value v = 0"

text \<open>
  \<^verbatim>\<open>
  const page = Math.max(1, Number.isFinite(req.query.page) ? req.query.page : 1);
  const limitRaw = Number.isFinite(req.query.limit) ? req.query.limit : 10;
  const limit = Math.min(100, Math.max(1, limitRaw));
  const skip = (page - 1) * limit;
  \<close>
\<close>

definition list_page :: "jsobj \<Rightarrow> real" where
  "list_page q = max 1 (if isFinite (q ''page'') then num_value (q ''page'') else 1)"

definition list_limit :: "jsobj \<Rightarrow> real" where
  "list_limit q =
     (let limitRaw = (if isFinite (q ''limit'') then num_value (q ''limit'') else 10)
      in min 100 (max 1 limitRaw))"

definition list_skip :: "jsobj \<Rightarrow> real" where
  "list_skip q = (list_page q - 1) * list_limit q"

text \<open>
  \<^verbatim>\<open>
  const minGpa = req.query.minGpa !== undefined && req.query.minGpa !== ''
    ? parseFloat(req.query.minGpa) : undefined;
  \<close>
\<close>

definition gpa_bound :: "ext \<Rightarrow> jsval \<Rightarrow> jsval" where
  "gpa_bound E v = (if v \<noteq> JUndefined \<and> v \<noteq> JString [] then JNumber (js_parseFloat E v) else JUndefined)"

text \<open>\<^verbatim>\<open>typeof v === 'number' && Number.isFinite(v)\<close>\<close>

definition has_bound :: "jsval \<Rightarrow> bool" where
  "has_bound v = ((case v of JNumber n \<Rightarrow> True | other \<Rightarrow> False) \<and> isFinite v)"

text \<open>
  \<^verbatim>\<open>
  const filter = {};
  if (q) filter.$text = { $search: sanitizeString(q) };
  if (department) filter.department = sanitizeString(department);
  const hasMin = ...; const hasMax = ...;
  if (hasMin || hasMax) {
    filter.gpa = {};
    if (hasMin) filter.gpa.$gte = minGpa;
    if (hasMax) filter.gpa.$lte = maxGpa;
  }
  \<close>
\<close>

definition list_filter :: "ext \<Rightarrow> jsobj \<Rightarrow> student_filter" where
  "list_filter E q =
     (let minGpa = gpa_bound E (q ''minGpa'');
          maxGpa = gpa_bound E (q ''maxGpa'');
          hasMin = has_bound minGpa;
          hasMax = has_bound maxGpa
      in \<lparr>text_search = (if truthy (q ''q'') then Some (sanitizeString (q ''q'')) else None),
          filter_department =
            (if truthy (q ''department'') then Some (sanitizeString (q ''department'')) else None),
          filter_gpa =
            (if hasMin \<or> hasMax
             then Some \<lparr>gte = (if hasMin then Some minGpa else None),
                        lte = (if hasMax then Some maxGpa else None)\<rparr>
             else None)\<rparr>)"

definition list_filters_echo :: "ext \<Rightarrow> jsobj \<Rightarrow> (string \<times> jsval) list" where
  "list_filters_echo E q =
     [(''q'', js_or (q ''q'') (JString [])),
      (''department'', js_or (q ''department'') (JString [])),
      (''minGpa'', js_or (gpa_bound E (q ''minGpa'')) (JString [])),
      (''maxGpa'', js_or (gpa_bound E (q ''maxGpa'')) (JString [])),
      (''sortBy'', js_or (q ''sortBy'') (JString ''createdAt'')),
      (''order'', js_or (q ''order'') (JString ''desc'')),
      (''limit'', JNumber (Fin (list_limit q)))]"

text \<open>The handler of \<^verbatim>\<open>GET /students\<close>, after its chains have run over the request.\<close>

definition list_students :: "ext \<Rightarrow> student list \<Rightarrow> request \<Rightarrow> response" where
  "list_students E db req0 =
     (let q = req_query (fst (run_chains E (listValidators E) req0));
          flt = list_filter E q;
          srt = buildSort (q ''sortBy'') (q ''order'');
          tot = countDocuments E flt db;
          students = find_students E flt srt (list_skip q) (list_limit q) db;
          pages = max 1 \<lceil>real tot / list_limit q\<rceil>
      in Render 200 ''students''
           (StudentsView ''Students'' students
              \<lparr>page = list_page q, limit = list_limit q, total = tot, totalPages = pages\<rparr>
              (list_filters_echo E q) (js_or (q ''msg'') (JString []))))"

subsection \<open>Create, update, delete\<close>

text \<open>
  \<^verbatim>\<open>
  let departmentValue = sanitizeString(req.body.department);
  if (departmentValue === 'custom' && req.body.customDepartment) {
    departmentValue = sanitizeString(req.body.customDepartment);
  }
  \<close>
\<close>

definition departmentValue :: "jsobj \<Rightarrow> jsval" where
  "departmentValue b =
     (let d = sanitizeString (b ''department'')
      in if d = JString ''custom'' \<and> truthy (b ''customDepartment'')
         then sanitizeString (b ''customDepartment'') else d)"

definition student_of_body :: "ext \<Rightarrow> jsobj \<Rightarrow> student_paths" where
  "student_of_body E b =
     \<lparr>p_name = sanitizeString (b ''name''),
      p_rollNumber = sanitizeString (b ''rollNumber''),
      p_email = sanitizeString (b ''email''),
      p_department = departmentValue b,
      p_gpa = Number E (b ''gpa'')\<rparr>"

text \<open>\<^verbatim>\<open>router.post('/')\<close>: the response and the collection afterwards. \<^verbatim>\<open>oid\<close> is the
  id generated for the new document.\<close>

definition create_student :: "ext \<Rightarrow> string \<Rightarrow> student list \<Rightarrow> request \<Rightarrow> response \<times> student list" where
  "create_student E oid db req0 =
     (let (req, errors) = run_chains E (studentValidators E) req0
      in if errors \<noteq> []
         then (Render 422 ''addStudent'' (FormView ''Add Student'' errors (req_body req)), db)
         else (case save_student E oid (student_of_body E (req_body req)) db of
                 Inr db' \<Rightarrow> (Redirect ''/students?msg=created'', db')
               | Inl (DuplicateKey dupField) \<Rightarrow>
                   (Render 409 ''addStudent''
                      (FormView ''Add Student'' [dupField @ '' must be unique''] (req_body req)), db)
               | Inl err \<Rightarrow> (Next err, db)))"

text \<open>\<^verbatim>\<open>router.put('/:id')\<close>\<close>

definition update_student :: "ext \<Rightarrow> student list \<Rightarrow> request \<Rightarrow> response \<times> student list" where
  "update_student E db req0 =
     (let (req, errors) = run_chains E (param ''id'' [isMongoId E] # studentValidators E) req0;
          vals = (req_body req)(''_id'' := req_params req ''id'')
      in if errors \<noteq> []
         then (Render 422 ''editStudent'' (FormView ''Edit Student'' errors vals), db)
         else (case findByIdAndUpdate E (req_params req ''id'') (student_of_body E (req_body req)) db of
                 Inr (None, db') \<Rightarrow>
                   (Render 404 ''error'' (ErrorView ''Not Found'' ''Student not found'' 404), db')
               | Inr (Some updated, db') \<Rightarrow>
                   (Redirect (''/students/'' @ student_id updated @ ''?msg=updated''), db')
               | Inl (DuplicateKey dupField) \<Rightarrow>
                   (Render 409 ''editStudent''
                      (FormView ''Edit Student'' [dupField @ '' must be unique''] vals), db)
               | Inl err \<Rightarrow> (Next err, db)))"

text \<open>\<^verbatim>\<open>router.delete('/:id')\<close>: the chain runs, its result is never read.\<close>

definition delete_student :: "ext \<Rightarrow> student list \<Rightarrow> request \<Rightarrow> response \<times> student list" where
  "delete_student E db req0 =
     (let req = fst (run_chains E [param ''id'' [isMongoId E]] req0)
      in case findByIdAndDelete E (req_params req ''id'') db of
           Inl err \<Rightarrow> (Next err, db)
         | Inr (deleted, db') \<Rightarrow> (Redirect ''/students?msg=deleted'', db'))"

section \<open>The user model\<close>

text \<open>
  A user document in memory carries, beside the paths of \<^verbatim>\<open>UserSchema\<close>, the paths
  modified since it was loaded or created: \<^verbatim>\<open>this.isModified('password')\<close> reads them.
\<close>

record user_document = user +
  modifiedPaths :: "string list"

definition isModified :: "user_document \<Rightarrow> string \<Rightarrow> bool" where
  "isModified this path = (path \<in> set (modifiedPaths this))"

text \<open>The calls into bcryptjs a function makes, in order.\<close>

datatype bcrypt_call = GenSalt nat | Hash string string

text \<open>
  \<^verbatim>\<open>
  UserSchema.pre('save', async function(next) {
    if (!this.isModified('password')) return next();
    try {
      const salt = await bcrypt.genSalt(12);
      this.password = await bcrypt.hash(this.password, salt);
      next();
    } catch (error) { next(error); }
  });
  \<close>
  The result is the document handed on by \<^verbatim>\<open>next()\<close>, or the error of
  \<^verbatim>\<open>next(error)\<close>, with the calls made.
\<close>

definition pre_save :: "ext \<Rightarrow> user_document \<Rightarrow> bcrypt_call list \<times> (error + user_document)" where
  "pre_save E this =
     (if \<not> isModified this ''password'' then ([], Inr this)
      else let salt = genSalt E 12
           in (case bcrypt_hash E (password this) salt of
                 Some h \<Rightarrow> ([GenSalt 12, Hash (password this) salt], Inr (this\<lparr>password := h\<rparr>))
               | None \<Rightarrow> ([GenSalt 12, Hash (password this) salt], Inl BcryptError)))"

text \<open>\<^verbatim>\<open>comparePassword\<close>: bcryptjs refuses a candidate that is not a string.\<close>

fun comparePassword :: "ext \<Rightarrow> user \<Rightarrow> jsval \<Rightarrow> error + bool" where
  "comparePassword E this (JString candidatePassword) =
     Inr (bcrypt_compare E candidatePassword (password this))"
| "comparePassword E this v = Inl BcryptError"

text \<open>
  \<^verbatim>\<open>
  UserSchema.methods.toJSON = function() {
    const user = this.toObject();
    delete user.password;
    return user;
  };
  \<close>
  A plain object is a finite map from keys to values.
\<close>

definition toObject :: "user \<Rightarrow> (string \<rightharpoonup> jsval)" where
  "toObject this =
     [''_id'' \<mapsto> JString (user_id this),
      ''username'' \<mapsto> JString (username this),
      ''email'' \<mapsto> JString (user_email this),
      ''password'' \<mapsto> JString (password this),
      ''role'' \<mapsto> JString (role this),
      ''isActive'' \<mapsto> JBool (isActive this)]"

definition toJSON :: "user \<Rightarrow> (string \<rightharpoonup> jsval)" where
  "toJSON this = (let u = toObject this in u(''password'' := None))"

text \<open>The validators of \<^verbatim>\<open>UserSchema\<close>.\<close>

definition username_ok :: "string \<Rightarrow> bool" where
  "username_ok s = (s \<noteq> [] \<and> 3 \<le> length s \<and> length s \<le> 30 \<and> list_all usernameChar s)"

definition password_ok :: "string \<Rightarrow> bool" where
  "password_ok s = (s \<noteq> [] \<and> 6 \<le> length s)"

definition role_ok :: "string \<Rightarrow> bool" where
  "role_ok r = (r \<in> set [''admin'', ''user''])"

definition user_ok :: "user_document \<Rightarrow> bool" where
  "user_ok this = (username_ok (username this) \<and> email_ok (user_email this)
     \<and> password_ok (password this) \<and> role_ok (role this))"

text \<open>\<^verbatim>\<open>new User({username, email, password})\<close>: the setters run, the defaults are filled
  in and every path given is marked modified. A path left \<^verbatim>\<open>undefined\<close> fails
  \<^verbatim>\<open>required\<close> when the document is saved; the model reports it here.\<close>

definition new_User :: "ext \<Rightarrow> string \<Rightarrow> jsval \<Rightarrow> jsval \<Rightarrow> jsval \<Rightarrow> error + user_document" where
  "new_User E oid u e p =
     (case (map_option trim (cast_string E u),
            map_option (\<lambda>s. trim (toLowerCase s)) (cast_string E e),
            cast_string E p) of
        (Some u', Some e', Some p') \<Rightarrow>
          Inr \<lparr>user_id = oid, username = u', user_email = e', password = p', role = ''user'',
               isActive = True, modifiedPaths = [''username'', ''email'', ''password'']\<rparr>
      | other \<Rightarrow> Inl ValidationError)"

definition user_duplicate_key :: "user_document \<Rightarrow> user list \<Rightarrow> string option" where
  "user_duplicate_key this db =
     (let others = filter (\<lambda>d. user_id d \<noteq> user_id this) db
      in if list_ex (\<lambda>d. username d = username this) others then Some ''username''
         else if list_ex (\<lambda>d. user_email d = user_email this) others then Some ''email''
         else None)"

text \<open>\<^verbatim>\<open>user.save()\<close>: validation, then the pre-save hook, then the write under the
  unique indexes: the document replaces the stored one with its id, or is added.\<close>

definition store_user :: "user \<Rightarrow> user list \<Rightarrow> user list" where
  "store_user u db =
     (if list_ex (\<lambda>d. user_id d = user_id u) db
      then map (\<lambda>d. if user_id d = user_id u then u else d) db
      else db @ [u])"

definition save_user :: "ext \<Rightarrow> user_document \<Rightarrow> user list \<Rightarrow> bcrypt_call list \<times> (error + user list)" where
  "save_user E this db =
     (if \<not> user_ok this then ([], Inl ValidationError)
      else (case pre_save E this of
              (calls, Inl e) \<Rightarrow> (calls, Inl e)
            | (calls, Inr hashed) \<Rightarrow>
                (case user_duplicate_key hashed db of
                   Some f \<Rightarrow> (calls, Inl (DuplicateKey f))
                 | None \<Rightarrow> (calls, Inr (store_user (user.truncate hashed) db)))))"

section \<open>The authentication router\<close>

text \<open>\<^verbatim>\<open>a === b\<close>\<close>

definition strict_eq :: "jsval \<Rightarrow> jsval \<Rightarrow> bool" where
  "strict_eq a b = (a = b \<and> a \<noteq> JNumber NaN)"

definition signupValidators :: "ext \<Rightarrow> chain list" where
  "signupValidators E =
     [body ''username'' [trim_s,
        withMessage (isLength 3 (Some 30)) ''Username must be between 3 and 30 characters'',
        withMessage (matches_class usernameChar)
          ''Username can only contain letters, numbers, and underscores''],
      body ''email'' [trim_s, withMessage (isEmail_v E) ''Please enter a valid email address'',
        normalizeEmail_s E],
      body ''password'' [withMessage (isLength 6 None) ''Password must be at least 6 characters long''],
      body ''confirmPassword'' [CustomValidator (\<lambda>v req.
        if \<not> strict_eq v (req_body req ''password'')
        then Some ''Password confirmation does not match password'' else None)]]"

definition loginValidators :: "ext \<Rightarrow> chain list" where
  "loginValidators E =
     [body ''email'' [trim_s, withMessage (isEmail_v E) ''Please enter a valid email address'',
        normalizeEmail_s E],
      body ''password'' [withMessage notEmpty ''Password is required'']]"

text \<open>\<^verbatim>\<open>User.findOne({ $or: [{ email }, { username }] })\<close> and
  \<^verbatim>\<open>User.findOne({ email })\<close>: the first document that matches.\<close>

definition findOne_email_or_username :: "ext \<Rightarrow> jsval \<Rightarrow> jsval \<Rightarrow> user list \<Rightarrow> user option" where
  "findOne_email_or_username E e u db =
     find (\<lambda>d. cast_string E e = Some (user_email d) \<or> cast_string E u = Some (username d)) db"

definition findOne_email :: "ext \<Rightarrow> jsval \<Rightarrow> user list \<Rightarrow> user option" where
  "findOne_email E e db = find (\<lambda>d. cast_string E e = Some (user_email d)) db"

definition msg_signup_failed :: string where
  "msg_signup_failed = ''An error occurred during signup. Please try again.''"

text \<open>\<^verbatim>\<open>router.post('/signup')\<close>\<close>

definition signup :: "ext \<Rightarrow> string \<Rightarrow> user list \<Rightarrow> request \<Rightarrow> response \<times> user list" where
  "signup E oid db req0 =
     (let (req, errors) = run_chains E (signupValidators E) req0;
          b = req_body req
      in if errors \<noteq> [] then (Render 422 ''signup'' (FormView ''Sign Up'' errors b), db)
         else (case findOne_email_or_username E (b ''email'') (b ''username'') db of
                 Some existingUser \<Rightarrow>
                   if strict_eq (JString (user_email existingUser)) (b ''email'')
                   then (Render 409 ''signup'' (FormView ''Sign Up'' [''Email already registered''] b), db)
                   else (Render 409 ''signup'' (FormView ''Sign Up'' [''Username already taken''] b), db)
               | None \<Rightarrow>
                   (case new_User E oid (b ''username'') (b ''email'') (b ''password'') of
                      Inl e \<Rightarrow> (Render 500 ''signup'' (FormView ''Sign Up'' [msg_signup_failed] b), db)
                    | Inr this \<Rightarrow>
                        (case snd (save_user E this db) of
                           Inl e \<Rightarrow> (Render 500 ''signup'' (FormView ''Sign Up'' [msg_signup_failed] b), db)
                         | Inr db' \<Rightarrow> (Redirect ''/login?msg=signup_success'', db')))))"

definition msg_invalid_login :: string where
  "msg_invalid_login = ''Invalid email or password''"

definition msg_deactivated :: string where
  "msg_deactivated = ''Account is deactivated. Please contact administrator.''"

definition msg_login_failed :: string where
  "msg_login_failed = ''An error occurred during login. Please try again.''"

text \<open>\<^verbatim>\<open>router.post('/login')\<close>: the response and the session afterwards.\<close>

definition login :: "ext \<Rightarrow> user list \<Rightarrow> jsobj \<Rightarrow> request \<Rightarrow> response \<times> jsobj" where
  "login E db session req0 =
     (let (req, errors) = run_chains E (loginValidators E) req0;
          b = req_body req
      in if errors \<noteq> [] then (Render 422 ''login'' (FormView ''Login'' errors b), session)
         else (case findOne_email E (b ''email'') db of
                 None \<Rightarrow> (Render 401 ''login'' (FormView ''Login'' [msg_invalid_login] b), session)
               | Some u \<Rightarrow>
                   if \<not> isActive u
                   then (Render 401 ''login'' (FormView ''Login'' [msg_deactivated] b), session)
                   else (case comparePassword E u (b ''password'') of
                           Inl e \<Rightarrow> (Render 500 ''login'' (FormView ''Login'' [msg_login_failed] b), session)
                         | Inr isValidPassword \<Rightarrow>
                             if \<not> isValidPassword
                             then (Render 401 ''login'' (FormView ''Login'' [msg_invalid_login] b), session)
                             else (Redirect ''/?msg=login_success'',
                                   session(''userId'' := JString (user_id u),
                                           ''username'' := JString (username u),
                                           ''role'' := JString (role u))))))"

section \<open>Sample data\<close>

text \<open>
  Concrete inputs for the examples below. \<^verbatim>\<open>obj\<close> is the object with the listed
  properties. \<^verbatim>\<open>sample_ext\<close> stands in for the runtime and the libraries: its
  conversions are the runtime's results on the strings the examples use, its
  \<^verbatim>\<open>isEmail\<close> and \<^verbatim>\<open>normalizeEmail\<close> agree with validator.js on the lower-case
  addresses used, its hash is a stand-in that, like bcrypt, returns the salt followed
  by a digest, and its sort orders by gpa when that is the key, keeps the stored order
  for any other key, and reverses the result when the direction is not 1.
\<close>

definition obj :: "(string \<times> jsval) list \<Rightarrow> jsobj" where
  "obj kvs k = (case map_of kvs k of None \<Rightarrow> JUndefined | Some v \<Rightarrow> v)"

definition sample_number :: "string \<Rightarrow> jsnum" where
  "sample_number s =
     (if s = ''0'' then Fin 0 else if s = ''1'' then Fin 1 else if s = ''2.5'' then Fin 2.5
      else if s = ''3.5'' then Fin 3.5 else if s = ''4'' then Fin 4 else if s = ''4.5'' then Fin 4.5
      else if s = ''10'' then Fin 10 else if s = ''-1'' then Fin (- 1) else NaN)"

definition sample_salt :: string where
  "sample_salt = ''$2a$12$Qm3xT0pWv8nLr5yHc1dZke''"

definition sample_ext :: ext where
  "sample_ext =
     \<lparr>parseInt10 = sample_number,
      parseFloat = sample_number,
      stringToNumber = sample_number,
      numberToString = (\<lambda>n. if n = Fin 0 then ''0'' else if n = Fin 4 then ''4'' else ''NaN''),
      isEmail = emailRegex_test,
      normalizeEmail = (\<lambda>s. JString (toLowerCase s)),
      validator_isMongoId = isObjectIdHex,
      genSalt = (\<lambda>rounds. sample_salt),
      bcrypt_hash = (\<lambda>p salt. Some (salt @ rev p)),
      bcrypt_compare = (\<lambda>p h. drop (length sample_salt) h = rev p),
      textSearch = (\<lambda>v s. v = JString (name s)),
      sortDocs = (\<lambda>srt docs.
        let sorted_docs = (if fst srt = JString ''gpa'' then sort_key gpa docs else docs)
        in if snd srt = 1 then sorted_docs else rev sorted_docs),
      otherObjectId = (\<lambda>s. None)\<rparr>"

definition sample_student :: "nat \<Rightarrow> student" where
  "sample_student i =
     \<lparr>student_id = replicate 23 CHR ''0'' @ [char_of (97 + i)],
      name = ''Student '' @ [char_of (65 + i)],
      rollNumber = ''r-'' @ [char_of (97 + i)],
      email = [char_of (97 + i)] @ ''@uni.example'',
      department = ''Physics'',
      gpa = 3\<rparr>"


text \<open>Three students with different gpas, in the order they were stored.\<close>

definition sample_grades :: "student list" where
  "sample_grades =
     [(sample_student 0)\<lparr>gpa := 3\<rparr>, (sample_student 2)\<lparr>gpa := 0\<rparr>, (sample_student 3)\<lparr>gpa := 4\<rparr>]"

definition sample_oid :: string where
  "sample_oid = ''65f1c0ffee0123456789abcd''"

definition request_of :: "(string \<times> jsval) list \<Rightarrow> (string \<times> jsval) list \<Rightarrow> (string \<times> jsval) list \<Rightarrow> request" where
  "request_of b q p = \<lparr>req_body = obj b, req_query = obj q, req_params = obj p\<rparr>"

definition sample_student_body :: "string \<Rightarrow> string \<Rightarrow> (string \<times> jsval) list" where
  "sample_student_body nm cd =
     [(''name'', JString nm), (''rollNumber'', JString ''CS-101''),
      (''email'', JString ''ada@uni.example''), (''department'', JString ''custom''),
      (''customDepartment'', JString cd), (''gpa'', JString ''3.5'')]"

definition sample_signup_body :: "string \<Rightarrow> string \<Rightarrow> (string \<times> jsval) list" where
  "sample_signup_body un pw =
     [(''username'', JString un), (''email'', JString ''Bob@Uni.Example''),
      (''password'', JString pw), (''confirmPassword'', JString pw)]"

definition sample_login_body :: "string \<Rightarrow> string \<Rightarrow> (string \<times> jsval) list" where
  "sample_login_body em pw = [(''email'', JString em), (''password'', JString pw)]"

definition sample_users :: "user list" where
  "sample_users =
     [\<lparr>user_id = ''65f1c0ffee0123456789ab01'', username = ''bob'', user_email = ''bob@uni.example'',
       password = sample_salt @ rev ''secret1'', role = ''user'', isActive = True\<rparr>,
      \<lparr>user_id = ''65f1c0ffee0123456789ab02'', username = ''carol'', user_email = ''carol@uni.example'',
       password = sample_salt @ rev ''secret2'', role = ''admin'', isActive = False\<rparr>]"

text \<open>The first sample user as a document in memory, with a password, a role and the
  paths marked modified.\<close>

definition sample_document :: "string \<Rightarrow> string \<Rightarrow> string list \<Rightarrow> user_document" where
  "sample_document pw r paths =
     \<lparr>user_id = ''65f1c0ffee0123456789ab01'', username = ''bob'', user_email = ''bob@uni.example'',
      password = pw, role = r, isActive = True, modifiedPaths = paths\<rparr>"

section \<open>Properties\<close>

subsection \<open>Strings\<close>

lemma trim_Nil: "trim [] = []"
  by (simp add: trim_def)

lemma dropWhile_rev_dropWhile:
  "dropWhile P (rev (dropWhile P (rev (dropWhile P xs)))) = rev (dropWhile P (rev (dropWhile P xs)))"
  by (metis (no_types, lifting) Nil_is_rev_conv dropWhile_eq_Nil_conv
    dropWhile_eq_self_iff dropWhile_last hd_dropWhile hd_rev last_rev)

lemma trim_idem: "trim (trim s) = trim s"
  by (simp add: trim_def dropWhile_rev_dropWhile)

subsection \<open>What the chains leave in the request\<close>

lemma run_item_std:
  "run_item E l f (StdValidator ok m) (req, errs) =
     (req, errs @ (if ok (toString E (getField req l f)) then [] else [m]))"
  by simp

lemma run_item_custom:
  "run_item E l f (CustomValidator g) (req, errs) =
     (req, errs @ (case g (getField req l f) req of None \<Rightarrow> [] | Some m \<Rightarrow> [m]))"
  by (simp split: option.split)

lemma run_chain_body: "run_chain E (body f its) st = fold (run_item E Body f) its st"
  by (simp add: run_chain_def body_def)

lemma run_chain_param: "run_chain E (param f its) st = fold (run_item E Params f) its st"
  by (simp add: run_chain_def param_def)

lemma run_chain_optional_sanitizer:
  "run_chain E (optional (query f [Sanitizer g])) (req, errs) =
     (req\<lparr>req_query := (req_query req)(f := (if req_query req f = JUndefined then JUndefined
        else g (toString E (req_query req f))))\<rparr>, errs)"
  by (cases req) (auto simp: run_chain_def optional_def query_def fun_upd_idem)

lemma list_query_field:
  "req_query (fst (run_chains E (listValidators E) req)) k =
     (if k \<in> set [''page'', ''limit''] then
        (if req_query req k = JUndefined then JUndefined
         else JNumber (parseInt10 E (toString E (req_query req k))))
      else if k \<in> set [''q'', ''department'', ''minGpa'', ''maxGpa'', ''sortBy'', ''order''] then
        (if req_query req k = JUndefined then JUndefined
         else JString (trim (toString E (req_query req k))))
      else req_query req k)"
  unfolding run_chains_def listValidators_def toInt_def trim_s_def
  apply (simp add: run_chain_optional_sanitizer split del: if_split)
  apply auto
  done

lemma validateDepartment_body:
  "req_body r ''customDepartment'' = req_body req ''customDepartment'' \<Longrightarrow>
   validateDepartment v r = validateDepartment v req"
  by (simp add: validateDepartment_def)

lemma student_chains_fold:
  fixes E req
  defines "nm \<equiv> trim (toString E (req_body req ''name''))"
      and "rn \<equiv> trim (toString E (req_body req ''rollNumber''))"
      and "em \<equiv> trim (toString E (req_body req ''email''))"
      and "dp \<equiv> trim (toString E (req_body req ''department''))"
  shows "fold (run_chain E) (studentValidators E) (req, errs) =
     (req\<lparr>req_body := (req_body req)(''name'' := JString nm, ''rollNumber'' := JString rn,
          ''email'' := normalizeEmail E em, ''department'' := JString dp)\<rparr>,
      errs
      @ (if nm \<noteq> [] then [] else [''Name is required''])
      @ (if 2 \<le> length nm \<and> length nm \<le> 100 then [] else [invalid_value])
      @ (if rn \<noteq> [] then [] else [''Roll number is required''])
      @ (if rn \<noteq> [] \<and> list_all rollChar rn then [] else [''Roll number must be alphanumeric''])
      @ (if isEmail E em then [] else [''Valid email is required''])
      @ (if dp \<noteq> [] then [] else [''Department is required''])
      @ (case validateDepartment (JString dp) req of None \<Rightarrow> [] | Some m \<Rightarrow> [m])
      @ (if isFloat_test E 0 4 (toString E (req_body req ''gpa'')) then []
         else [''GPA must be between 0.0 and 4.0'']))"
  unfolding studentValidators_def nm_def rn_def em_def dp_def
  apply (simp add: run_chain_body trim_s_def withMessage_def notEmpty_def isLength_def
      matches_class_def isEmail_v_def normalizeEmail_s_def isFloat_def
      run_item_std run_item_custom
      del: run_item.simps(2,3) split del: if_split cong: if_cong)
  apply (subst validateDepartment_body [where req = req])
   apply simp
  apply (simp split del: if_split cong: if_cong)
  done

subsection \<open>The list: pagination, sort and filter\<close>



lemma length_find_students:
  "length (sortDocs E srt (filter (matches_filter E flt) db)) = countDocuments E flt db \<Longrightarrow>
   length (find_students E flt srt skip lmt db) = min (nat \<lfloor>lmt\<rfloor>) (countDocuments E flt db - nat \<lfloor>skip\<rfloor>)"
  by (simp add: find_students_def)




lemma sample_filter_all:
  "req_query r ''q'' = JUndefined \<Longrightarrow> req_query r ''department'' = JUndefined \<Longrightarrow>
   req_query r ''minGpa'' = JUndefined \<Longrightarrow> req_query r ''maxGpa'' = JUndefined \<Longrightarrow>
   filter (matches_filter E (list_filter E (req_query (fst (run_chains E (listValidators E) r))))) db = db"
  by (simp add: list_filter_def Let_def list_query_field gpa_bound_def has_bound_def matches_filter_def)


lemma buildSort_cases:
  "fst (buildSort sortBy order) \<in> set allowed
   \<and> (sortBy \<in> set allowed \<longrightarrow> fst (buildSort sortBy order) = sortBy)
   \<and> (sortBy \<notin> set allowed \<longrightarrow> fst (buildSort sortBy order) = JString ''createdAt'')
   \<and> (snd (buildSort sortBy order) = 1 \<longleftrightarrow> order = JString ''asc'')
   \<and> (snd (buildSort sortBy order) = - 1 \<longleftrightarrow> order \<noteq> JString ''asc'')
   \<and> buildSort sortBy JUndefined = (fst (buildSort sortBy order), - 1)"
  by (simp add: buildSort_def allowed_def)

lemma has_bound_gpa_bound:
  "has_bound (gpa_bound E v) = (v \<noteq> JUndefined \<and> v \<noteq> JString [] \<and> (\<exists>x. js_parseFloat E v = Fin x))"
  by (cases "js_parseFloat E v") (simp_all add: has_bound_def gpa_bound_def)

lemma list_filter_gpa_range:
  fixes E q
  defines "hasMin \<equiv> q ''minGpa'' \<noteq> JUndefined \<and> q ''minGpa'' \<noteq> JString []
                     \<and> (\<exists>x. js_parseFloat E (q ''minGpa'') = Fin x)"
    and "hasMax \<equiv> q ''maxGpa'' \<noteq> JUndefined \<and> q ''maxGpa'' \<noteq> JString []
                     \<and> (\<exists>x. js_parseFloat E (q ''maxGpa'') = Fin x)"
  shows "(filter_gpa (list_filter E q) = None) = (\<not> hasMin \<and> \<not> hasMax)
    \<and> (\<forall>r. filter_gpa (list_filter E q) = Some r \<longrightarrow>
          (gte r = None) = (\<not> hasMin) \<and> (lte r = None) = (\<not> hasMax)
          \<and> (\<forall>v. gte r = Some v \<longrightarrow> (\<exists>x. v = JNumber (Fin x) \<and> js_parseFloat E (q ''minGpa'') = Fin x))
          \<and> (\<forall>v. lte r = Some v \<longrightarrow> (\<exists>x. v = JNumber (Fin x) \<and> js_parseFloat E (q ''maxGpa'') = Fin x))
          \<and> gte r \<noteq> Some (JNumber NaN) \<and> lte r \<noteq> Some (JNumber NaN)
          \<and> (\<forall>s. matches_gpa E r s =
                ((\<forall>x. gte r = Some (JNumber (Fin x)) \<longrightarrow> x \<le> gpa s)
                 \<and> (\<forall>y. lte r = Some (JNumber (Fin y)) \<longrightarrow> gpa s \<le> y))))"
proof -
  have hm: "has_bound (gpa_bound E (q ''minGpa'')) = hasMin"
    by (simp add: has_bound_gpa_bound hasMin_def)
  have hx: "has_bound (gpa_bound E (q ''maxGpa'')) = hasMax"
    by (simp add: has_bound_gpa_bound hasMax_def)
  have bm: "hasMin \<Longrightarrow> \<exists>x. gpa_bound E (q ''minGpa'') = JNumber (Fin x) \<and> js_parseFloat E (q ''minGpa'') = Fin x"
    by (auto simp: hasMin_def gpa_bound_def)
  have bx: "hasMax \<Longrightarrow> \<exists>x. gpa_bound E (q ''maxGpa'') = JNumber (Fin x) \<and> js_parseFloat E (q ''maxGpa'') = Fin x"
    by (auto simp: hasMax_def gpa_bound_def)
  have fg: "filter_gpa (list_filter E q) =
      (if hasMin \<or> hasMax
       then Some \<lparr>gte = (if hasMin then Some (gpa_bound E (q ''minGpa'')) else None),
                  lte = (if hasMax then Some (gpa_bound E (q ''maxGpa'')) else None)\<rparr>
       else None)"
    by (simp add: list_filter_def Let_def hm hx)
  have c1: "(filter_gpa (list_filter E q) = None) = (\<not> hasMin \<and> \<not> hasMax)"
    by (simp add: fg)
  have c2: "\<forall>r. filter_gpa (list_filter E q) = Some r \<longrightarrow>
          (gte r = None) = (\<not> hasMin) \<and> (lte r = None) = (\<not> hasMax)
          \<and> (\<forall>v. gte r = Some v \<longrightarrow> (\<exists>x. v = JNumber (Fin x) \<and> js_parseFloat E (q ''minGpa'') = Fin x))
          \<and> (\<forall>v. lte r = Some v \<longrightarrow> (\<exists>x. v = JNumber (Fin x) \<and> js_parseFloat E (q ''maxGpa'') = Fin x))
          \<and> gte r \<noteq> Some (JNumber NaN) \<and> lte r \<noteq> Some (JNumber NaN)
          \<and> (\<forall>s. matches_gpa E r s =
                ((\<forall>x. gte r = Some (JNumber (Fin x)) \<longrightarrow> x \<le> gpa s)
                 \<and> (\<forall>y. lte r = Some (JNumber (Fin y)) \<longrightarrow> gpa s \<le> y)))"
    using bm bx
    by (auto simp: fg matches_gpa_def num_ge_def split: if_splits)
  show ?thesis using c1 c2 by blast
qed


lemma list_students_response:
  fixes E db req
  defines "q \<equiv> req_query (fst (run_chains E (listValidators E) req))"
  shows "list_students E db req = Render 200 ''students''
      (StudentsView ''Students''
        (take (nat \<lfloor>list_limit q\<rfloor>) (drop (nat \<lfloor>(list_page q - 1) * list_limit q\<rfloor>)
           (sortDocs E (buildSort (q ''sortBy'') (q ''order''))
              (filter (matches_filter E (list_filter E q)) db))))
        \<lparr>page = list_page q, limit = list_limit q,
          total = length (filter (matches_filter E (list_filter E q)) db),
          totalPages = max 1 \<lceil>real (length (filter (matches_filter E (list_filter E q)) db)) / list_limit q\<rceil>\<rparr>
        (list_filters_echo E q) (js_or (q ''msg'') (JString [])))"
  by (simp add: list_students_def Let_def q_def countDocuments_def find_students_def list_skip_def)

lemma list_filter_matches:
  fixes E q
  defines "hasMin \<equiv> q ''minGpa'' \<noteq> JUndefined \<and> q ''minGpa'' \<noteq> JString []
                     \<and> (\<exists>x. js_parseFloat E (q ''minGpa'') = Fin x)"
    and "hasMax \<equiv> q ''maxGpa'' \<noteq> JUndefined \<and> q ''maxGpa'' \<noteq> JString []
                     \<and> (\<exists>x. js_parseFloat E (q ''maxGpa'') = Fin x)"
  shows "matches_filter E (list_filter E q) s =
      (matches_filter E ((list_filter E q)\<lparr>filter_gpa := None\<rparr>) s
       \<and> (\<forall>x. hasMin \<and> js_parseFloat E (q ''minGpa'') = Fin x \<longrightarrow> x \<le> gpa s)
       \<and> (\<forall>y. hasMax \<and> js_parseFloat E (q ''maxGpa'') = Fin y \<longrightarrow> gpa s \<le> y))"
proof -
  have hm: "has_bound (gpa_bound E (q ''minGpa'')) = hasMin"
    by (simp add: has_bound_gpa_bound hasMin_def)
  have hx: "has_bound (gpa_bound E (q ''maxGpa'')) = hasMax"
    by (simp add: has_bound_gpa_bound hasMax_def)
  have bm: "hasMin \<Longrightarrow> gpa_bound E (q ''minGpa'') = JNumber (js_parseFloat E (q ''minGpa''))"
    by (auto simp: hasMin_def gpa_bound_def)
  have bx: "hasMax \<Longrightarrow> gpa_bound E (q ''maxGpa'') = JNumber (js_parseFloat E (q ''maxGpa''))"
    by (auto simp: hasMax_def gpa_bound_def)
  have fl: "list_filter E q =
      \<lparr>text_search = (if truthy (q ''q'') then Some (sanitizeString (q ''q'')) else None),
       filter_department =
         (if truthy (q ''department'') then Some (sanitizeString (q ''department'')) else None),
       filter_gpa =
         (if hasMin \<or> hasMax
          then Some \<lparr>gte = (if hasMin then Some (gpa_bound E (q ''minGpa'')) else None),
                     lte = (if hasMax then Some (gpa_bound E (q ''maxGpa'')) else None)\<rparr>
          else None)\<rparr>"
    by (simp add: list_filter_def Let_def hm hx)
  have em: "hasMin \<Longrightarrow> \<exists>x. js_parseFloat E (q ''minGpa'') = Fin x"
    by (simp add: hasMin_def)
  have ex: "hasMax \<Longrightarrow> \<exists>x. js_parseFloat E (q ''maxGpa'') = Fin x"
    by (simp add: hasMax_def)
  show ?thesis
  proof (cases hasMin)
    case True
    note m = this
    from em [OF m] obtain x where x: "js_parseFloat E (q ''minGpa'') = Fin x" ..
    show ?thesis
    proof (cases hasMax)
      case True
      from ex [OF True] obtain y where y: "js_parseFloat E (q ''maxGpa'') = Fin y" ..
      show ?thesis
        using m True
        by (simp add: matches_filter_def fl bm bx x y matches_gpa_def num_ge_def)
    next
      case False
      show ?thesis
        using m False
        by (simp add: matches_filter_def fl bm x matches_gpa_def num_ge_def)
    qed
  next
    case False
    note m = this
    show ?thesis
    proof (cases hasMax)
      case True
      from ex [OF True] obtain y where y: "js_parseFloat E (q ''maxGpa'') = Fin y" ..
      show ?thesis
        using m True
        by (simp add: matches_filter_def fl bx y matches_gpa_def num_ge_def)
    next
      case False
      show ?thesis
        using m False
        by (simp add: matches_filter_def fl)
    qed
  qed
qed

text \<open>
  C6 (as amended). Every list request is answered with status 200 and the students the
  store returns for the request's filter, sorted by a key and a direction and cut to the
  page. The key is always one of name, rollNumber, email, department, gpa, createdAt: it
  is the sortBy parameter as the chain has trimmed it when that is one of the six, and
  createdAt otherwise, also when sortBy is absent. The direction is ascending (1) exactly
  when the order parameter as the chain has trimmed it equals asc, and descending (-1) for
  every other value and when order is absent. Both comparisons are made on the trimmed
  parameters, as the counterexample below shows.
\<close>

theorem list_sort_allow_list:
  fixes E db req
  defines "q \<equiv> req_query (fst (run_chains E (listValidators E) req))"
  defines "sb \<equiv> (if req_query req ''sortBy'' = JUndefined then JUndefined
                   else JString (trim (toString E (req_query req ''sortBy''))))"
      and "ob \<equiv> (if req_query req ''order'' = JUndefined then JUndefined
                   else JString (trim (toString E (req_query req ''order''))))"
  shows "\<exists>key dir students pg echo flash.
      list_students E db req = Render 200 ''students'' (StudentsView ''Students'' students pg echo flash)
    \<and> students = take (nat \<lfloor>limit pg\<rfloor>) (drop (nat \<lfloor>(page pg - 1) * limit pg\<rfloor>)
         (sortDocs E (key, dir) (filter (matches_filter E (list_filter E q)) db)))
    \<and> key \<in> set allowed
    \<and> (sb \<in> set allowed \<longrightarrow> key = sb)
    \<and> (sb \<notin> set allowed \<longrightarrow> key = JString ''createdAt'')
    \<and> (dir = 1) = (ob = JString ''asc'')
    \<and> (dir = - 1) = (ob \<noteq> JString ''asc'')
    \<and> (req_query req ''sortBy'' = JUndefined \<longrightarrow> key = JString ''createdAt'')
    \<and> (req_query req ''order'' = JUndefined \<longrightarrow> dir = - 1)
    \<and> page pg = list_page q \<and> limit pg = list_limit q"
proof -
  have s: "q ''sortBy'' = sb" and o: "q ''order'' = ob"
    by (simp_all add: q_def list_query_field sb_def ob_def)
  let ?key = "fst (buildSort sb ob)" and ?dir = "snd (buildSort sb ob)"
  have b: "buildSort (q ''sortBy'') (q ''order'') = (?key, ?dir)"
    by (simp add: s o)
  have u: "req_query req ''sortBy'' = JUndefined \<longrightarrow> ?key = JString ''createdAt''"
      "req_query req ''order'' = JUndefined \<longrightarrow> ?dir = - 1"
    by (simp_all add: sb_def ob_def buildSort_def allowed_def)
  have r: "list_students E db req = Render 200 ''students''
      (StudentsView ''Students''
        (take (nat \<lfloor>list_limit q\<rfloor>) (drop (nat \<lfloor>(list_page q - 1) * list_limit q\<rfloor>)
           (sortDocs E (?key, ?dir) (filter (matches_filter E (list_filter E q)) db))))
        \<lparr>page = list_page q, limit = list_limit q,
          total = length (filter (matches_filter E (list_filter E q)) db),
          totalPages = max 1 \<lceil>real (length (filter (matches_filter E (list_filter E q)) db)) / list_limit q\<rceil>\<rparr>
        (list_filters_echo E q) (js_or (q ''msg'') (JString [])))"
    unfolding q_def b [unfolded q_def, symmetric] by (rule list_students_response)
  show ?thesis
    apply (rule exI [of _ ?key], rule exI [of _ ?dir])
    apply (intro exI conjI)
            apply (rule r)
    using buildSort_cases [of sb ob] u
           apply simp_all
    done
qed

lemma sample_list_page:
  "req_query r ''page'' = JUndefined \<Longrightarrow> req_query r ''limit'' = JUndefined \<Longrightarrow>
   list_page (req_query (fst (run_chains E (listValidators E) r))) = 1
   \<and> list_limit (req_query (fst (run_chains E (listValidators E) r))) = 10"
  by (simp add: list_page_def list_limit_def list_query_field)

lemma sample_sortDocs:
  "sortDocs sample_ext (JString ''gpa'', 1) xs = sort_key gpa xs"
  "sortDocs sample_ext (JString ''gpa'', - 1) xs = rev (sort_key gpa xs)"
  "sortDocs sample_ext (JString ''createdAt'', 1) xs = xs"
  "sortDocs sample_ext (JString ''createdAt'', - 1) xs = rev xs"
  by (simp_all add: sample_ext_def)

lemma sample_grades_sorted:
  "map gpa (sortDocs sample_ext (JString ''gpa'', 1) sample_grades) = [0, 3, 4]"
  "map gpa (sortDocs sample_ext (JString ''gpa'', - 1) sample_grades) = [4, 3, 0]"
  "map gpa (sortDocs sample_ext (JString ''createdAt'', 1) sample_grades) = [3, 0, 4]"
  "map gpa (sortDocs sample_ext (JString ''createdAt'', - 1) sample_grades) = [4, 0, 3]"
  by (simp_all add: sample_sortDocs sample_grades_def)

lemma sample_grades_page:
  "take 10 (sortDocs sample_ext srt sample_grades) = sortDocs sample_ext srt sample_grades"
  by (simp add: sample_ext_def sample_grades_def Let_def)

text \<open>
  On the sample students with gpas 3, 0, 4 in stored order: sortBy gpa with order asc
  gives them by ascending gpa; an unknown sortBy with an unknown order, and no parameter
  at all, give them by createdAt descending, which the sample store answers with the
  stored order reversed.
\<close>

theorem list_sort_allow_list_witness:
  "(case list_students sample_ext sample_grades
           (request_of [] [(''sortBy'', JString ''gpa''), (''order'', JString ''asc'')] []) of
      Render st view (StudentsView t students pg echo flash) \<Rightarrow>
        st = 200 \<and> map gpa students = [0, 3, 4]
    | other \<Rightarrow> False)
   \<and> (case list_students sample_ext sample_grades
           (request_of [] [(''sortBy'', JString ''grade''), (''order'', JString ''up'')] []) of
      Render st view (StudentsView t students pg echo flash) \<Rightarrow>
        st = 200 \<and> map gpa students = [4, 0, 3]
    | other \<Rightarrow> False)
   \<and> (case list_students sample_ext sample_grades (request_of [] [] []) of
      Render st view (StudentsView t students pg echo flash) \<Rightarrow>
        st = 200 \<and> map gpa students = [4, 0, 3]
    | other \<Rightarrow> False)"
proof -
  let ?a = "request_of [] [(''sortBy'', JString ''gpa''), (''order'', JString ''asc'')] []"
  let ?b = "request_of [] [(''sortBy'', JString ''grade''), (''order'', JString ''up'')] []"
  let ?c = "request_of [] [] []"
  have pa: "list_page (req_query (fst (run_chains sample_ext (listValidators sample_ext) ?a))) = 1
      \<and> list_limit (req_query (fst (run_chains sample_ext (listValidators sample_ext) ?a))) = 10"
    by (rule sample_list_page) (simp_all add: request_of_def obj_def)
  have pb: "list_page (req_query (fst (run_chains sample_ext (listValidators sample_ext) ?b))) = 1
      \<and> list_limit (req_query (fst (run_chains sample_ext (listValidators sample_ext) ?b))) = 10"
    by (rule sample_list_page) (simp_all add: request_of_def obj_def)
  have pc: "list_page (req_query (fst (run_chains sample_ext (listValidators sample_ext) ?c))) = 1
      \<and> list_limit (req_query (fst (run_chains sample_ext (listValidators sample_ext) ?c))) = 10"
    by (rule sample_list_page) (simp_all add: request_of_def obj_def)
  have fa: "filter (matches_filter sample_ext (list_filter sample_ext
      (req_query (fst (run_chains sample_ext (listValidators sample_ext) ?a))))) sample_grades = sample_grades"
    by (rule sample_filter_all) (simp_all add: request_of_def obj_def)
  have fb: "filter (matches_filter sample_ext (list_filter sample_ext
      (req_query (fst (run_chains sample_ext (listValidators sample_ext) ?b))))) sample_grades = sample_grades"
    by (rule sample_filter_all) (simp_all add: request_of_def obj_def)
  have fc: "filter (matches_filter sample_ext (list_filter sample_ext
      (req_query (fst (run_chains sample_ext (listValidators sample_ext) ?c))))) sample_grades = sample_grades"
    by (rule sample_filter_all) (simp_all add: request_of_def obj_def)
  have qa: "req_query ?a ''sortBy'' = JString ''gpa''" "req_query ?a ''order'' = JString ''asc''"
      "req_query ?b ''sortBy'' = JString ''grade''" "req_query ?b ''order'' = JString ''up''"
      "req_query ?c ''sortBy'' = JUndefined" "req_query ?c ''order'' = JUndefined"
    by (simp_all add: request_of_def obj_def)
  have tr: "trim ''gpa'' = ''gpa''" "trim ''asc'' = ''asc''" "trim ''grade'' = ''grade''" "trim ''up'' = ''up''"
    by (simp_all add: trim_def isWhiteSpace_def)
  have a: "(case list_students sample_ext sample_grades ?a of
      Render st view (StudentsView t students pg echo flash) \<Rightarrow>
        st = 200 \<and> map gpa students = [0, 3, 4]
    | other \<Rightarrow> False)"
    using list_sort_allow_list [where E = sample_ext and req = ?a and db = sample_grades]
    by (auto simp: pa fa qa tr allowed_def sample_grades_page sample_grades_sorted)
  have b: "(case list_students sample_ext sample_grades ?b of
      Render st view (StudentsView t students pg echo flash) \<Rightarrow>
        st = 200 \<and> map gpa students = [4, 0, 3]
    | other \<Rightarrow> False)"
    using list_sort_allow_list [where E = sample_ext and req = ?b and db = sample_grades]
    by (auto simp: pb fb qa tr allowed_def sample_grades_page sample_grades_sorted)
  have c: "(case list_students sample_ext sample_grades ?c of
      Render st view (StudentsView t students pg echo flash) \<Rightarrow>
        st = 200 \<and> map gpa students = [4, 0, 3]
    | other \<Rightarrow> False)"
    using list_sort_allow_list [where E = sample_ext and req = ?c and db = sample_grades]
    by (auto simp: pc fc qa allowed_def sample_grades_page sample_grades_sorted)
  show ?thesis using a b c by simp
qed


text \<open>
  As stated without the trimming, C6 fails: a request whose sortBy is gpa between two
  spaces and whose order is asc between two spaces has a sortBy outside the six keys and
  an order that is not asc, and yet it is answered with the students sorted by gpa,
  ascending (gpas 0, 3, 4), where createdAt descending gives gpas 4, 0, 3.
\<close>

theorem list_sort_allow_list_counterexample:
  "req_query (request_of [] [(''sortBy'', JString '' gpa ''), (''order'', JString '' asc '')] []) ''sortBy''
      = JString '' gpa ''
   \<and> JString '' gpa '' \<notin> set allowed
   \<and> req_query (request_of [] [(''sortBy'', JString '' gpa ''), (''order'', JString '' asc '')] []) ''order''
      = JString '' asc ''
   \<and> JString '' asc '' \<noteq> JString ''asc''
   \<and> (case list_students sample_ext sample_grades
           (request_of [] [(''sortBy'', JString '' gpa ''), (''order'', JString '' asc '')] []) of
      Render st view (StudentsView t students pg echo flash) \<Rightarrow>
        st = 200 \<and> students = sortDocs sample_ext (JString ''gpa'', 1) sample_grades
        \<and> map gpa students = [0, 3, 4]
    | other \<Rightarrow> False)
   \<and> map gpa (sortDocs sample_ext (JString ''createdAt'', - 1) sample_grades) = [4, 0, 3]"
proof -
  let ?r = "request_of [] [(''sortBy'', JString '' gpa ''), (''order'', JString '' asc '')] []"
  let ?q = "req_query (fst (run_chains sample_ext (listValidators sample_ext) ?r))"
  have p: "list_page ?q = 1 \<and> list_limit ?q = 10"
    by (rule sample_list_page) (simp_all add: request_of_def obj_def)
  have f: "filter (matches_filter sample_ext (list_filter sample_ext ?q)) sample_grades = sample_grades"
    by (rule sample_filter_all) (simp_all add: request_of_def obj_def)
  have q: "req_query ?r ''sortBy'' = JString '' gpa ''" "req_query ?r ''order'' = JString '' asc ''"
    by (simp_all add: request_of_def obj_def)
  have tr: "trim '' gpa '' = ''gpa''" "trim '' asc '' = ''asc''"
    by (simp_all add: trim_def isWhiteSpace_def)
  have s: "?q ''sortBy'' = JString ''gpa''" "?q ''order'' = JString ''asc''"
    by (simp_all add: list_query_field q tr)
  have b: "buildSort (?q ''sortBy'') (?q ''order'') = (JString ''gpa'', 1)"
    by (simp add: s buildSort_def allowed_def)
  show ?thesis
    by (simp add: list_students_response p f b q allowed_def sample_grades_page sample_grades_sorted)
qed

text \<open>
  C10. Every list request is answered with status 200, with the students and the total
  that the store gives for the filter built from the request. A minGpa (maxGpa)
  parameter counts as a bound when it is present, is not empty once the chain has trimmed
  it, and parses to a finite number; otherwise it is ignored. The filter has a gpa range
  exactly when at least one of the two counts; the range has a lower (upper) end exactly
  when minGpa (maxGpa) counts, and that end is the finite number parsed, never NaN. A
  student passes the filter exactly when it passes the filter without the gpa range, its
  gpa is at least the lower bound when minGpa counts, and at most the upper bound when
  maxGpa counts.
\<close>

theorem list_request_gpa_filter:
  fixes E db req
  defines "q \<equiv> req_query (fst (run_chains E (listValidators E) req))"
  defines "flt \<equiv> list_filter E q"
      and "mn \<equiv> trim (toString E (req_query req ''minGpa''))"
      and "mx \<equiv> trim (toString E (req_query req ''maxGpa''))"
  defines "hasMin \<equiv> req_query req ''minGpa'' \<noteq> JUndefined \<and> mn \<noteq> []
                      \<and> (\<exists>x. parseFloat E mn = Fin x)"
      and "hasMax \<equiv> req_query req ''maxGpa'' \<noteq> JUndefined \<and> mx \<noteq> []
                      \<and> (\<exists>x. parseFloat E mx = Fin x)"
  shows "(\<exists>students pg echo flash.
        list_students E db req = Render 200 ''students'' (StudentsView ''Students'' students pg echo flash)
      \<and> students = take (nat \<lfloor>limit pg\<rfloor>) (drop (nat \<lfloor>(page pg - 1) * limit pg\<rfloor>)
           (sortDocs E (buildSort (q ''sortBy'') (q ''order'')) (filter (matches_filter E flt) db)))
      \<and> total pg = length (filter (matches_filter E flt) db)
      \<and> page pg = list_page q \<and> limit pg = list_limit q)
    \<and> (filter_gpa flt = None) = (\<not> hasMin \<and> \<not> hasMax)
    \<and> (\<forall>r. filter_gpa flt = Some r \<longrightarrow>
          (gte r = None) = (\<not> hasMin) \<and> (lte r = None) = (\<not> hasMax)
          \<and> (\<forall>v. gte r = Some v \<longrightarrow> (\<exists>x. v = JNumber (Fin x) \<and> parseFloat E mn = Fin x))
          \<and> (\<forall>v. lte r = Some v \<longrightarrow> (\<exists>x. v = JNumber (Fin x) \<and> parseFloat E mx = Fin x))
          \<and> gte r \<noteq> Some (JNumber NaN) \<and> lte r \<noteq> Some (JNumber NaN))
    \<and> (\<forall>s. matches_filter E flt s =
          (matches_filter E (flt\<lparr>filter_gpa := None\<rparr>) s
           \<and> (\<forall>x. hasMin \<and> parseFloat E mn = Fin x \<longrightarrow> x \<le> gpa s)
           \<and> (\<forall>y. hasMax \<and> parseFloat E mx = Fin y \<longrightarrow> gpa s \<le> y)))"
proof -
  have qm: "q ''minGpa'' = (if req_query req ''minGpa'' = JUndefined then JUndefined else JString mn)"
    and qx: "q ''maxGpa'' = (if req_query req ''maxGpa'' = JUndefined then JUndefined else JString mx)"
    by (simp_all add: q_def list_query_field mn_def mx_def)
  have hm: "(q ''minGpa'' \<noteq> JUndefined \<and> q ''minGpa'' \<noteq> JString []
             \<and> (\<exists>x. js_parseFloat E (q ''minGpa'') = Fin x)) = hasMin"
    by (simp add: qm hasMin_def)
  have hx: "(q ''maxGpa'' \<noteq> JUndefined \<and> q ''maxGpa'' \<noteq> JString []
             \<and> (\<exists>x. js_parseFloat E (q ''maxGpa'') = Fin x)) = hasMax"
    by (simp add: qx hasMax_def)
  have pm: "hasMin \<Longrightarrow> js_parseFloat E (q ''minGpa'') = parseFloat E mn"
    by (simp add: qm hasMin_def)
  have px: "hasMax \<Longrightarrow> js_parseFloat E (q ''maxGpa'') = parseFloat E mx"
    by (simp add: qx hasMax_def)
  have a: "\<exists>students pg echo flash.
        list_students E db req = Render 200 ''students'' (StudentsView ''Students'' students pg echo flash)
      \<and> students = take (nat \<lfloor>limit pg\<rfloor>) (drop (nat \<lfloor>(page pg - 1) * limit pg\<rfloor>)
           (sortDocs E (buildSort (q ''sortBy'') (q ''order'')) (filter (matches_filter E flt) db)))
      \<and> total pg = length (filter (matches_filter E flt) db)
      \<and> page pg = list_page q \<and> limit pg = list_limit q"
    apply (intro exI conjI)
      apply (unfold q_def flt_def)
      apply (rule list_students_response)
     apply simp_all
    done
  note g = list_filter_gpa_range [of E q, unfolded hm hx, folded flt_def]
  have b: "(filter_gpa flt = None) = (\<not> hasMin \<and> \<not> hasMax)"
    using g by blast
  have c: "\<forall>r. filter_gpa flt = Some r \<longrightarrow>
          (gte r = None) = (\<not> hasMin) \<and> (lte r = None) = (\<not> hasMax)
          \<and> (\<forall>v. gte r = Some v \<longrightarrow> (\<exists>x. v = JNumber (Fin x) \<and> parseFloat E mn = Fin x))
          \<and> (\<forall>v. lte r = Some v \<longrightarrow> (\<exists>x. v = JNumber (Fin x) \<and> parseFloat E mx = Fin x))
          \<and> gte r \<noteq> Some (JNumber NaN) \<and> lte r \<noteq> Some (JNumber NaN)"
  proof (intro allI impI)
    fix r assume r: "filter_gpa flt = Some r"
    from g r have g1: "(gte r = None) = (\<not> hasMin)" "(lte r = None) = (\<not> hasMax)"
        "\<forall>v. gte r = Some v \<longrightarrow> (\<exists>x. v = JNumber (Fin x) \<and> js_parseFloat E (q ''minGpa'') = Fin x)"
        "\<forall>v. lte r = Some v \<longrightarrow> (\<exists>x. v = JNumber (Fin x) \<and> js_parseFloat E (q ''maxGpa'') = Fin x)"
        "gte r \<noteq> Some (JNumber NaN)" "lte r \<noteq> Some (JNumber NaN)"
      by blast+
    have m1: "\<forall>v. gte r = Some v \<longrightarrow> (\<exists>x. v = JNumber (Fin x) \<and> parseFloat E mn = Fin x)"
    proof (intro allI impI)
      fix v assume v: "gte r = Some v"
      with g1(1) have h: hasMin by auto
      from g1(3) v show "\<exists>x. v = JNumber (Fin x) \<and> parseFloat E mn = Fin x"
        by (simp add: pm [OF h])
    qed
    have m2: "\<forall>v. lte r = Some v \<longrightarrow> (\<exists>x. v = JNumber (Fin x) \<and> parseFloat E mx = Fin x)"
    proof (intro allI impI)
      fix v assume v: "lte r = Some v"
      with g1(2) have h: hasMax by auto
      from g1(4) v show "\<exists>x. v = JNumber (Fin x) \<and> parseFloat E mx = Fin x"
        by (simp add: px [OF h])
    qed
    show "(gte r = None) = (\<not> hasMin) \<and> (lte r = None) = (\<not> hasMax)
          \<and> (\<forall>v. gte r = Some v \<longrightarrow> (\<exists>x. v = JNumber (Fin x) \<and> parseFloat E mn = Fin x))
          \<and> (\<forall>v. lte r = Some v \<longrightarrow> (\<exists>x. v = JNumber (Fin x) \<and> parseFloat E mx = Fin x))
          \<and> gte r \<noteq> Some (JNumber NaN) \<and> lte r \<noteq> Some (JNumber NaN)"
      using g1(1,2,5,6) m1 m2 by simp
  qed
  have d: "\<forall>s. matches_filter E flt s =
          (matches_filter E (flt\<lparr>filter_gpa := None\<rparr>) s
           \<and> (\<forall>x. hasMin \<and> parseFloat E mn = Fin x \<longrightarrow> x \<le> gpa s)
           \<and> (\<forall>y. hasMax \<and> parseFloat E mx = Fin y \<longrightarrow> gpa s \<le> y))"
  proof
    fix s
    note f = list_filter_matches [of E q s, unfolded hm hx, folded flt_def]
    show "matches_filter E flt s =
          (matches_filter E (flt\<lparr>filter_gpa := None\<rparr>) s
           \<and> (\<forall>x. hasMin \<and> parseFloat E mn = Fin x \<longrightarrow> x \<le> gpa s)
           \<and> (\<forall>y. hasMax \<and> parseFloat E mx = Fin y \<longrightarrow> gpa s \<le> y))"
      unfolding f using pm px by auto
  qed
  show ?thesis using a b c d by blast
qed


text \<open>
  On the sample students with gpas 3, 0, 4: an empty minGpa with maxGpa abc leaves the
  filter without a gpa range and all three students are returned; minGpa 1 between two
  spaces, with maxGpa abc, returns the two students with gpa at least 1; minGpa 1 with
  maxGpa 4 returns the same two, the upper bound being inclusive; maxGpa 1 alone returns
  the student with gpa 0.
\<close>

theorem list_request_gpa_filter_witness:
  "filter_gpa (list_filter sample_ext (req_query (fst (run_chains sample_ext (listValidators sample_ext)
      (request_of [] [(''minGpa'', JString []), (''maxGpa'', JString ''abc'')] []))))) = None
   \<and> (case list_students sample_ext sample_grades
           (request_of [] [(''minGpa'', JString []), (''maxGpa'', JString ''abc'')] []) of
      Render st view (StudentsView t students pg echo flash) \<Rightarrow>
        st = 200 \<and> total pg = 3 \<and> map gpa students = [4, 0, 3]
    | other \<Rightarrow> False)
   \<and> (case list_students sample_ext sample_grades
           (request_of [] [(''minGpa'', JString '' 1 ''), (''maxGpa'', JString ''abc'')] []) of
      Render st view (StudentsView t students pg echo flash) \<Rightarrow>
        st = 200 \<and> total pg = 2 \<and> map gpa students = [4, 3]
    | other \<Rightarrow> False)
   \<and> (case list_students sample_ext sample_grades
           (request_of [] [(''minGpa'', JString ''1''), (''maxGpa'', JString ''4'')] []) of
      Render st view (StudentsView t students pg echo flash) \<Rightarrow>
        st = 200 \<and> total pg = 2 \<and> map gpa students = [4, 3]
    | other \<Rightarrow> False)
   \<and> (case list_students sample_ext sample_grades
           (request_of [] [(''maxGpa'', JString ''1'')] []) of
      Render st view (StudentsView t students pg echo flash) \<Rightarrow>
        st = 200 \<and> total pg = 1 \<and> map gpa students = [0]
    | other \<Rightarrow> False)"
proof -
  let ?a = "request_of [] [(''minGpa'', JString []), (''maxGpa'', JString ''abc'')] []"
  let ?b = "request_of [] [(''minGpa'', JString '' 1 ''), (''maxGpa'', JString ''abc'')] []"
  let ?c = "request_of [] [(''minGpa'', JString ''1''), (''maxGpa'', JString ''4'')] []"
  let ?d = "request_of [] [(''maxGpa'', JString ''1'')] []"
  let ?Q = "\<lambda>r. req_query (fst (run_chains sample_ext (listValidators sample_ext) r))"
  have tr: "trim [] = []" "trim ''abc'' = ''abc''" "trim '' 1 '' = ''1''" "trim ''1'' = ''1''" "trim ''4'' = ''4''"
    by (simp_all add: trim_def isWhiteSpace_def)
  have pf: "parseFloat sample_ext ''abc'' = NaN" "parseFloat sample_ext ''1'' = Fin 1"
      "parseFloat sample_ext ''4'' = Fin 4"
    by (simp_all add: sample_ext_def sample_number_def)
  have qa: "req_query ?a ''minGpa'' = JString []" "req_query ?a ''maxGpa'' = JString ''abc''"
      "req_query ?b ''minGpa'' = JString '' 1 ''" "req_query ?b ''maxGpa'' = JString ''abc''"
      "req_query ?c ''minGpa'' = JString ''1''" "req_query ?c ''maxGpa'' = JString ''4''"
      "req_query ?d ''minGpa'' = JUndefined" "req_query ?d ''maxGpa'' = JString ''1''"
    by (simp_all add: request_of_def obj_def)
  have pg: "list_page (?Q ?a) = 1 \<and> list_limit (?Q ?a) = 10"
      "list_page (?Q ?b) = 1 \<and> list_limit (?Q ?b) = 10"
      "list_page (?Q ?c) = 1 \<and> list_limit (?Q ?c) = 10"
      "list_page (?Q ?d) = 1 \<and> list_limit (?Q ?d) = 10"
    by (rule sample_list_page, simp add: request_of_def obj_def, simp add: request_of_def obj_def)+
  have bs: "buildSort (?Q ?a ''sortBy'') (?Q ?a ''order'') = (JString ''createdAt'', - 1)"
      "buildSort (?Q ?b ''sortBy'') (?Q ?b ''order'') = (JString ''createdAt'', - 1)"
      "buildSort (?Q ?c ''sortBy'') (?Q ?c ''order'') = (JString ''createdAt'', - 1)"
      "buildSort (?Q ?d ''sortBy'') (?Q ?d ''order'') = (JString ''createdAt'', - 1)"
    by (simp_all add: buildSort_def allowed_def list_query_field request_of_def obj_def)
  have ng: "matches_filter sample_ext ((list_filter sample_ext (?Q ?a))\<lparr>filter_gpa := None\<rparr>) s"
      "matches_filter sample_ext ((list_filter sample_ext (?Q ?b))\<lparr>filter_gpa := None\<rparr>) s"
      "matches_filter sample_ext ((list_filter sample_ext (?Q ?c))\<lparr>filter_gpa := None\<rparr>) s"
      "matches_filter sample_ext ((list_filter sample_ext (?Q ?d))\<lparr>filter_gpa := None\<rparr>) s" for s
    by (simp_all add: matches_filter_def list_filter_def Let_def list_query_field request_of_def obj_def)
  note ta = list_request_gpa_filter [where E = sample_ext and req = ?a and db = sample_grades]
  note tb = list_request_gpa_filter [where E = sample_ext and req = ?b and db = sample_grades]
  note tc = list_request_gpa_filter [where E = sample_ext and req = ?c and db = sample_grades]
  note td = list_request_gpa_filter [where E = sample_ext and req = ?d and db = sample_grades]
  have ma: "matches_filter sample_ext (list_filter sample_ext (?Q ?a)) s = True" for s
    using ta [THEN conjunct2, THEN conjunct2, THEN conjunct2, rule_format, of s]
    by (simp add: qa tr pf ng)
  have mb: "matches_filter sample_ext (list_filter sample_ext (?Q ?b)) s = (1 \<le> gpa s)" for s
    using tb [THEN conjunct2, THEN conjunct2, THEN conjunct2, rule_format, of s]
    by (simp add: qa tr pf ng)
  have mc: "matches_filter sample_ext (list_filter sample_ext (?Q ?c)) s = (1 \<le> gpa s \<and> gpa s \<le> 4)" for s
    using tc [THEN conjunct2, THEN conjunct2, THEN conjunct2, rule_format, of s]
    by (simp add: qa tr pf ng)
  have md: "matches_filter sample_ext (list_filter sample_ext (?Q ?d)) s = (gpa s \<le> 1)" for s
    using td [THEN conjunct2, THEN conjunct2, THEN conjunct2, rule_format, of s]
    by (simp add: qa tr pf ng)
  have fa: "filter (matches_filter sample_ext (list_filter sample_ext (?Q ?a))) sample_grades
        = [(sample_student 0)\<lparr>gpa := 3\<rparr>, (sample_student 2)\<lparr>gpa := 0\<rparr>, (sample_student 3)\<lparr>gpa := 4\<rparr>]"
    and fb: "filter (matches_filter sample_ext (list_filter sample_ext (?Q ?b))) sample_grades
        = [(sample_student 0)\<lparr>gpa := 3\<rparr>, (sample_student 3)\<lparr>gpa := 4\<rparr>]"
    and fc: "filter (matches_filter sample_ext (list_filter sample_ext (?Q ?c))) sample_grades
        = [(sample_student 0)\<lparr>gpa := 3\<rparr>, (sample_student 3)\<lparr>gpa := 4\<rparr>]"
    and fd: "filter (matches_filter sample_ext (list_filter sample_ext (?Q ?d))) sample_grades
        = [(sample_student 2)\<lparr>gpa := 0\<rparr>]"
    by (simp_all add: ma mb mc md sample_grades_def)
  have a1: "filter_gpa (list_filter sample_ext (?Q ?a)) = None"
    using ta [THEN conjunct2, THEN conjunct1] by (simp add: qa tr pf)
  have a2: "(case list_students sample_ext sample_grades ?a of
      Render st view (StudentsView t students pg echo flash) \<Rightarrow>
        st = 200 \<and> total pg = 3 \<and> map gpa students = [4, 0, 3]
    | other \<Rightarrow> False)"
    using ta [THEN conjunct1]
    by (auto simp: pg bs sample_sortDocs fa)
  have b2: "(case list_students sample_ext sample_grades ?b of
      Render st view (StudentsView t students pg echo flash) \<Rightarrow>
        st = 200 \<and> total pg = 2 \<and> map gpa students = [4, 3]
    | other \<Rightarrow> False)"
    using tb [THEN conjunct1]
    by (auto simp: pg bs sample_sortDocs fb)
  have c2: "(case list_students sample_ext sample_grades ?c of
      Render st view (StudentsView t students pg echo flash) \<Rightarrow>
        st = 200 \<and> total pg = 2 \<and> map gpa students = [4, 3]
    | other \<Rightarrow> False)"
    using tc [THEN conjunct1]
    by (auto simp: pg bs sample_sortDocs fc)
  have d2: "(case list_students sample_ext sample_grades ?d of
      Render st view (StudentsView t students pg echo flash) \<Rightarrow>
        st = 200 \<and> total pg = 1 \<and> map gpa students = [0]
    | other \<Rightarrow> False)"
    using td [THEN conjunct1]
    by (auto simp: pg bs sample_sortDocs fd)
  show ?thesis using a1 a2 b2 c2 d2 by simp
qed

subsection \<open>The custom department\<close>

lemma student_chains:
  "run_chains E (studentValidators E) req = fold (run_chain E) (studentValidators E) (req, [])"
  by (simp add: run_chains_def)

lemma update_chains:
  "run_chains E (param ''id'' [isMongoId E] # studentValidators E) req =
     fold (run_chain E) (studentValidators E)
       (req, if validator_isMongoId E (toString E (req_params req ''id'')) then [] else [invalid_value])"
  by (simp add: run_chains_def run_chain_param isMongoId_def)

lemma create_student_created:
  assumes "create_student E oid db req0 = (Redirect url, db')"
  shows "snd (run_chains E (studentValidators E) req0) = []
     \<and> save_student E oid (student_of_body E (req_body (fst (run_chains E (studentValidators E) req0)))) db = Inr db'"
  using assms
  by (auto simp: create_student_def split: prod.splits if_splits sum.splits error.splits)

lemma update_student_updated:
  assumes "update_student E db req0 = (Redirect url, db')"
  shows "snd (run_chains E (param ''id'' [isMongoId E] # studentValidators E) req0) = []
     \<and> (\<exists>s. findByIdAndUpdate E (req_params (fst (run_chains E (param ''id'' [isMongoId E] # studentValidators E) req0)) ''id'')
           (student_of_body E (req_body (fst (run_chains E (param ''id'' [isMongoId E] # studentValidators E) req0)))) db
           = Inr (Some s, db') \<and> url = ''/students/'' @ student_id s @ ''?msg=updated'')"
  using assms
  by (auto simp: update_student_def Let_def split: prod.splits if_splits sum.splits error.splits option.splits)

lemma save_student_Inr:
  "save_student E oid ps db = Inr db' \<Longrightarrow> \<exists>s. cast_student E oid ps = Inr s \<and> db' = db @ [s]"
  by (auto simp: save_student_def split: sum.splits option.splits)

lemma findByIdAndUpdate_Some:
  "findByIdAndUpdate E idv ps db = Inr (Some s, db') \<Longrightarrow>
     \<exists>oid. castObjectId E idv = Some oid \<and> cast_student E oid ps = Inr s \<and> s \<in> set db'
       \<and> db' = map (\<lambda>d. if student_id d = oid then s else d) db"
  by (auto simp: findByIdAndUpdate_def list_ex_iff split: option.splits sum.splits if_splits)

lemma cast_student_department:
  "cast_student E oid ps = Inr s \<Longrightarrow> p_department ps = JString d \<Longrightarrow> department s = trim d"
  by (auto simp: cast_student_def split: option.splits jsnum.splits if_splits)

lemma validateDepartment_custom:
  "req_body req ''customDepartment'' = JString cd \<Longrightarrow>
   (validateDepartment (JString ''custom'') req = None) = (2 \<le> length (trim cd) \<and> length (trim cd) \<le> 100)"
  by (auto simp: validateDepartment_def trim_Nil)

lemma validateDepartment_undefined:
  "req_body req ''customDepartment'' = JUndefined \<Longrightarrow>
   validateDepartment (JString ''custom'') req \<noteq> None"
  by (auto simp: validateDepartment_def)

lemma departmentValue_custom:
  assumes "b ''department'' = JString d" "trim d = ''custom''" "b ''customDepartment'' = JString cd" "cd \<noteq> []"
  shows "departmentValue b = JString (trim cd)"
  using assms by (simp add: departmentValue_def)


lemma cast_student_id: "cast_student E oid ps = Inr s \<Longrightarrow> student_id s = oid"
  by (auto simp: cast_student_def split: option.splits jsnum.splits if_splits)

lemma trim_custom: "trim x = ''custom'' \<Longrightarrow> trim ''custom'' = ''custom''"
  by (metis trim_idem)

text \<open>
  C1 (as amended). For every create or update request whose department, trimmed, is the
  string custom and whose customDepartment is a string: if the request leads to a stored
  student, the stored department is the trimmed customDepartment, whose length is between
  2 and 100; and when customDepartment is absent or its trimmed length is outside 2..100,
  validation fails with status 422. The stored department is the string custom when
  customDepartment itself trims to custom, as the counterexample below shows.
\<close>

theorem custom_department_persisted:
  assumes dep: "trim (toString E (req_body req0 ''department'')) = ''custom''"
  shows "(\<forall>cd db'. req_body req0 ''customDepartment'' = JString cd
            \<and> create_student E oid db req0 = (Redirect ''/students?msg=created'', db')
          \<longrightarrow> (\<exists>s. db' = db @ [s] \<and> student_id s = oid \<and> department s = trim cd
                 \<and> 2 \<le> length (trim cd) \<and> length (trim cd) \<le> 100))
    \<and> (\<forall>cd url db'. req_body req0 ''customDepartment'' = JString cd
            \<and> update_student E db req0 = (Redirect url, db')
          \<longrightarrow> (\<exists>s \<in> set db'. url = ''/students/'' @ student_id s @ ''?msg=updated''
                 \<and> department s = trim cd \<and> 2 \<le> length (trim cd) \<and> length (trim cd) \<le> 100))
    \<and> (req_body req0 ''customDepartment'' = JUndefined
          \<or> (\<exists>cd. req_body req0 ''customDepartment'' = JString cd
                \<and> \<not> (2 \<le> length (trim cd) \<and> length (trim cd) \<le> 100))
        \<longrightarrow> (\<exists>errs vals. errs \<noteq> [] \<and> create_student E oid db req0 =
               (Render 422 ''addStudent'' (FormView ''Add Student'' errs vals), db))
          \<and> (\<exists>errs vals. errs \<noteq> [] \<and> update_student E db req0 =
               (Render 422 ''editStudent'' (FormView ''Edit Student'' errs vals), db)))"
proof -
  let ?C = "run_chains E (studentValidators E) req0"
  let ?U = "run_chains E (param ''id'' [isMongoId E] # studentValidators E) req0"
  have tc: "trim ''custom'' = ''custom''"
    using dep by (rule trim_custom)
  have bodyC: "req_body (fst ?C) ''department'' = JString ''custom''"
      "req_body (fst ?C) ''customDepartment'' = req_body req0 ''customDepartment''"
    using dep by (simp_all add: student_chains student_chains_fold)
  have bodyU: "req_body (fst ?U) ''department'' = JString ''custom''"
      "req_body (fst ?U) ''customDepartment'' = req_body req0 ''customDepartment''"
    using dep by (simp_all add: update_chains student_chains_fold)
  have errC: "(snd ?C = []) \<Longrightarrow> validateDepartment (JString ''custom'') req0 = None"
    using dep by (simp add: student_chains student_chains_fold split: option.splits)
  have errU: "(snd ?U = []) \<Longrightarrow> validateDepartment (JString ''custom'') req0 = None"
    using dep by (simp add: update_chains student_chains_fold split: option.splits)
  have nerrC: "validateDepartment (JString ''custom'') req0 \<noteq> None \<Longrightarrow> snd ?C \<noteq> []"
    using errC by auto
  have nerrU: "validateDepartment (JString ''custom'') req0 \<noteq> None \<Longrightarrow> snd ?U \<noteq> []"
    using errU by auto
  have dv: "departmentValue b = JString (trim cd)"
    if "b ''department'' = JString ''custom''" "b ''customDepartment'' = JString cd"
       "2 \<le> length (trim cd)" for b cd
  proof -
    from that(3) have "cd \<noteq> []" by (auto simp: trim_Nil)
    with that(1,2) tc show ?thesis by (simp add: departmentValue_custom)
  qed
  have A: "\<exists>s. db' = db @ [s] \<and> student_id s = oid \<and> department s = trim cd
                 \<and> 2 \<le> length (trim cd) \<and> length (trim cd) \<le> 100"
    if cd: "req_body req0 ''customDepartment'' = JString cd"
      and cr: "create_student E oid db req0 = (Redirect ''/students?msg=created'', db')" for cd db'
  proof -
    from create_student_created [OF cr]
    have e: "snd ?C = []"
      and sv: "save_student E oid (student_of_body E (req_body (fst ?C))) db = Inr db'"
      by simp_all
    from errC [OF e] cd have len: "2 \<le> length (trim cd) \<and> length (trim cd) \<le> 100"
      by (simp add: validateDepartment_custom)
    from save_student_Inr [OF sv] obtain s where
      s: "cast_student E oid (student_of_body E (req_body (fst ?C))) = Inr s" "db' = db @ [s]"
      by blast
    have "p_department (student_of_body E (req_body (fst ?C))) = JString (trim cd)"
      using dv [of "req_body (fst ?C)" cd] bodyC cd len by (simp add: student_of_body_def)
    from cast_student_department [OF s(1) this] have "department s = trim cd"
      by (simp add: trim_idem)
    with s len cast_student_id [OF s(1)] show ?thesis by blast
  qed
  have B: "\<exists>s \<in> set db'. url = ''/students/'' @ student_id s @ ''?msg=updated''
                 \<and> department s = trim cd \<and> 2 \<le> length (trim cd) \<and> length (trim cd) \<le> 100"
    if cd: "req_body req0 ''customDepartment'' = JString cd"
      and up: "update_student E db req0 = (Redirect url, db')" for cd url db'
  proof -
    from update_student_updated [OF up] obtain s where
      e: "snd ?U = []"
      and fu: "findByIdAndUpdate E (req_params (fst ?U) ''id'') (student_of_body E (req_body (fst ?U))) db
                = Inr (Some s, db')"
      and url: "url = ''/students/'' @ student_id s @ ''?msg=updated''"
      by blast
    from errU [OF e] cd have len: "2 \<le> length (trim cd) \<and> length (trim cd) \<le> 100"
      by (simp add: validateDepartment_custom)
    from findByIdAndUpdate_Some [OF fu] obtain i where
      s: "cast_student E i (student_of_body E (req_body (fst ?U))) = Inr s" "s \<in> set db'"
      by blast
    have "p_department (student_of_body E (req_body (fst ?U))) = JString (trim cd)"
      using dv [of "req_body (fst ?U)" cd] bodyU cd len by (simp add: student_of_body_def)
    from cast_student_department [OF s(1) this] have "department s = trim cd"
      by (simp add: trim_idem)
    with s len url show ?thesis by blast
  qed
  have C: "(\<exists>errs vals. errs \<noteq> [] \<and> create_student E oid db req0 =
               (Render 422 ''addStudent'' (FormView ''Add Student'' errs vals), db))
          \<and> (\<exists>errs vals. errs \<noteq> [] \<and> update_student E db req0 =
               (Render 422 ''editStudent'' (FormView ''Edit Student'' errs vals), db))"
    if bad: "req_body req0 ''customDepartment'' = JUndefined
          \<or> (\<exists>cd. req_body req0 ''customDepartment'' = JString cd
                \<and> \<not> (2 \<le> length (trim cd) \<and> length (trim cd) \<le> 100))"
  proof -
    from bad have v: "validateDepartment (JString ''custom'') req0 \<noteq> None"
      using validateDepartment_undefined [of req0] validateDepartment_custom [of req0] by auto
    from nerrC [OF v] have c: "\<exists>errs vals. errs \<noteq> [] \<and> create_student E oid db req0 =
               (Render 422 ''addStudent'' (FormView ''Add Student'' errs vals), db)"
      by (auto simp: create_student_def split: prod.splits)
    from nerrU [OF v] have u: "\<exists>errs vals. errs \<noteq> [] \<and> update_student E db req0 =
               (Render 422 ''editStudent'' (FormView ''Edit Student'' errs vals), db)"
      by (auto simp: update_student_def Let_def split: prod.splits)
    from c u show ?thesis by blast
  qed
  show ?thesis using A B C by blast
qed


lemmas sample_simps =
  sample_ext_def sample_number_def sample_oid_def sample_salt_def request_of_def obj_def
  sample_student_body_def
  trim_def isWhiteSpace_def toLowerCase_def toLowerChar_def char_of_def bit_Suc_0_iff
  isDigit_def isLetter_def rollChar_def usernameChar_def isHexChar_def isObjectIdHex_def
  float_regex_test_def skipSign_def isFloat_test_def emailRegex_test_def num_ge_def
  name_ok_def rollNumber_ok_def email_ok_def department_ok_def gpa_ok_def
  validateDepartment_def departmentValue_def student_of_body_def cast_student_def
  duplicate_key_def save_student_def invalid_value_def

lemma sample_create_physics:
  "create_student sample_ext sample_oid [] (request_of (sample_student_body ''Ada Lovelace'' '' Physics '') [] []) =
     (Redirect ''/students?msg=created'',
      [\<lparr>student_id = sample_oid, name = ''Ada Lovelace'', rollNumber = ''cs-101'',
        email = ''ada@uni.example'', department = ''Physics'', gpa = 3.5\<rparr>])"
  by (simp add: create_student_def student_chains student_chains_fold sample_simps)

theorem custom_department_persisted_witness:
  "trim (toString sample_ext (req_body (request_of (sample_student_body ''Ada Lovelace'' '' Physics '') [] []) ''department'')) = ''custom''
   \<and> req_body (request_of (sample_student_body ''Ada Lovelace'' '' Physics '') [] []) ''customDepartment'' = JString '' Physics ''
   \<and> trim '' Physics '' = ''Physics''
   \<and> (\<exists>s. create_student sample_ext sample_oid [] (request_of (sample_student_body ''Ada Lovelace'' '' Physics '') [] [])
            = (Redirect ''/students?msg=created'', [s])
          \<and> student_id s = sample_oid \<and> department s = ''Physics'')
   \<and> (\<exists>errs vals. errs \<noteq> [] \<and>
          create_student sample_ext sample_oid [] (request_of (sample_student_body ''Ada Lovelace'' ''P'') [] [])
            = (Render 422 ''addStudent'' (FormView ''Add Student'' errs vals), []))"
proof -
  let ?r = "request_of (sample_student_body ''Ada Lovelace'' '' Physics '') [] []"
  let ?p = "request_of (sample_student_body ''Ada Lovelace'' ''P'') [] []"
  have dep: "trim (toString sample_ext (req_body ?r ''department'')) = ''custom''"
    by (simp add: sample_simps)
  have depp: "trim (toString sample_ext (req_body ?p ''department'')) = ''custom''"
    by (simp add: sample_simps)
  have cd: "req_body ?r ''customDepartment'' = JString '' Physics ''"
    by (simp add: sample_simps)
  have cdp: "req_body ?p ''customDepartment'' = JString ''P'' \<and> trim ''P'' = ''P''"
    by (simp add: sample_simps)
  have t: "trim '' Physics '' = ''Physics''"
    by (simp add: sample_simps)
  have a: "\<exists>s. create_student sample_ext sample_oid [] ?r = (Redirect ''/students?msg=created'', [s])
          \<and> student_id s = sample_oid \<and> department s = ''Physics''"
    using custom_department_persisted [OF dep, of sample_oid "[]"] cd sample_create_physics t
    by auto
  have b: "\<exists>errs vals. errs \<noteq> [] \<and>
          create_student sample_ext sample_oid [] ?p = (Render 422 ''addStudent'' (FormView ''Add Student'' errs vals), [])"
    using custom_department_persisted [OF depp, of sample_oid "[]"] cdp
    by auto
  show ?thesis using dep cd t a b by blast
qed

text \<open>
  A request with department custom and customDepartment custom passes validation, and
  the stored department is the string custom.
\<close>

theorem custom_department_counterexample:
  "req_body (request_of (sample_student_body ''Ada Lovelace'' ''custom'') [] []) ''department'' = JString ''custom''
   \<and> req_body (request_of (sample_student_body ''Ada Lovelace'' ''custom'') [] []) ''customDepartment'' = JString ''custom''
   \<and> create_student sample_ext sample_oid [] (request_of (sample_student_body ''Ada Lovelace'' ''custom'') [] []) =
     (Redirect ''/students?msg=created'',
      [\<lparr>student_id = sample_oid, name = ''Ada Lovelace'', rollNumber = ''cs-101'',
        email = ''ada@uni.example'', department = ''custom'', gpa = 3.5\<rparr>])"
  by (simp add: create_student_def student_chains student_chains_fold sample_simps)

subsection \<open>The gpa at the request layer and at the schema\<close>

lemma mem_if_err: "(x \<in> set (if c then [] else [m])) = (\<not> c \<and> x = m)"
  by simp

lemma mem_case_err: "(x \<in> set (case r of None \<Rightarrow> [] | Some m \<Rightarrow> [m])) = (r = Some x)"
  by (cases r) auto

lemma validateDepartment_msgs:
  "validateDepartment v req = Some m \<Longrightarrow>
     m \<in> {msg_custom_required, msg_custom_short, msg_custom_long, msg_not_a_function}"
  by (auto simp: validateDepartment_def split: if_splits jsval.splits)

lemma validateDepartment_not_gpa:
  "validateDepartment v req \<noteq> Some ''GPA must be between 0.0 and 4.0''"
proof
  assume "validateDepartment v req = Some ''GPA must be between 0.0 and 4.0''"
  from validateDepartment_msgs [OF this] show False
    by (simp add: msg_custom_required_def msg_custom_short_def msg_custom_long_def msg_not_a_function_def)
qed

lemma gpa_message_iff:
  "(''GPA must be between 0.0 and 4.0'' \<in> set (snd (fold (run_chain E) (studentValidators E) (req, errs))))
     = (''GPA must be between 0.0 and 4.0'' \<in> set errs \<or> \<not> isFloat_test E 0 4 (toString E (req_body req ''gpa'')))"
  by (simp add: student_chains_fold mem_if_err mem_case_err validateDepartment_not_gpa validateDepartment_not_gpa [symmetric] invalid_value_def
      split del: if_split)


lemma isFloat_test_iff:
  "isFloat_test E lo hi g =
     (g \<noteq> [] \<and> g \<noteq> ''.'' \<and> g \<noteq> '','' \<and> g \<noteq> ''-'' \<and> g \<noteq> ''+'' \<and> float_regex_test g
      \<and> (\<exists>v. parseFloat E (replace_comma g) = Fin v \<and> lo \<le> v \<and> v \<le> hi))"
  by (cases "parseFloat E (replace_comma g)") (auto simp: isFloat_test_def Let_def num_ge_def)

lemma gpa_ok_iff: "gpa_ok n = (\<exists>v. n = Fin v \<and> 0 \<le> v \<and> v \<le> 4)"
  by (cases n) (auto simp: gpa_ok_def num_ge_def)

lemma cast_student_gpa:
  "cast_student E oid ps = Inr s \<Longrightarrow> p_gpa ps = Fin (gpa s) \<and> gpa_ok (p_gpa ps)"
  by (auto simp: cast_student_def split: option.splits jsnum.splits if_splits)

lemma cast_student_gpa_bad:
  "\<not> gpa_ok (p_gpa ps) \<Longrightarrow> cast_student E oid ps = Inl ValidationError"
  by (auto simp: cast_student_def split: option.splits jsnum.splits if_splits)

text \<open>
  C5. For every student create or update input, the request layer accepts the gpa field
  (records no gpa error) exactly when the field, read as a string, has the syntax of a
  decimal number and the number parsed from it lies between 0 and 4, both ends included;
  otherwise both handlers answer 422. The storage schema accepts a gpa exactly when it is
  a finite number between 0 and 4, both ends included: a stored student has such a gpa,
  and a save or update with any other gpa fails with a validation error.
\<close>

theorem gpa_validation:
  fixes E req
  defines "g \<equiv> toString E (req_body req ''gpa'')"
  shows "(''GPA must be between 0.0 and 4.0'' \<in> set (snd (run_chains E (studentValidators E) req)))
           = (\<not> isFloat_test E 0 4 g)
    \<and> (''GPA must be between 0.0 and 4.0''
           \<in> set (snd (run_chains E (param ''id'' [isMongoId E] # studentValidators E) req)))
           = (\<not> isFloat_test E 0 4 g)
    \<and> isFloat_test E 0 4 g =
         (g \<noteq> [] \<and> g \<noteq> ''.'' \<and> g \<noteq> '','' \<and> g \<noteq> ''-'' \<and> g \<noteq> ''+'' \<and> float_regex_test g
          \<and> (\<exists>v. parseFloat E (replace_comma g) = Fin v \<and> 0 \<le> v \<and> v \<le> 4))
    \<and> (\<not> isFloat_test E 0 4 g \<longrightarrow>
          (\<exists>errs vals. create_student E oid db req =
             (Render 422 ''addStudent'' (FormView ''Add Student'' errs vals), db))
          \<and> (\<exists>errs vals. update_student E db req =
             (Render 422 ''editStudent'' (FormView ''Edit Student'' errs vals), db)))
    \<and> gpa_ok n = (\<exists>v. n = Fin v \<and> 0 \<le> v \<and> v \<le> 4)
    \<and> gpa_ok (Fin 0) \<and> gpa_ok (Fin 4)
    \<and> (\<forall>s. cast_student E oid ps = Inr s \<longrightarrow> p_gpa ps = Fin (gpa s) \<and> 0 \<le> gpa s \<and> gpa s \<le> 4)
    \<and> (\<not> gpa_ok (p_gpa ps) \<longrightarrow>
          cast_student E oid ps = Inl ValidationError
          \<and> save_student E oid ps db = Inl ValidationError
          \<and> (\<forall>i. findByIdAndUpdate E i ps db = Inl ValidationError \<or> findByIdAndUpdate E i ps db = Inl CastError))"
proof -
  have m1: "(''GPA must be between 0.0 and 4.0'' \<in> set (snd (run_chains E (studentValidators E) req)))
           = (\<not> isFloat_test E 0 4 g)"
    by (simp add: student_chains gpa_message_iff g_def)
  have m2: "(''GPA must be between 0.0 and 4.0''
           \<in> set (snd (run_chains E (param ''id'' [isMongoId E] # studentValidators E) req)))
           = (\<not> isFloat_test E 0 4 g)"
    by (simp add: update_chains gpa_message_iff g_def invalid_value_def)
  have h: "\<not> isFloat_test E 0 4 g \<longrightarrow>
          (\<exists>errs vals. create_student E oid db req =
             (Render 422 ''addStudent'' (FormView ''Add Student'' errs vals), db))
          \<and> (\<exists>errs vals. update_student E db req =
             (Render 422 ''editStudent'' (FormView ''Edit Student'' errs vals), db))"
  proof
    assume bad: "\<not> isFloat_test E 0 4 g"
    with m1 have "snd (run_chains E (studentValidators E) req) \<noteq> []" by auto
    then have c: "\<exists>errs vals. create_student E oid db req =
             (Render 422 ''addStudent'' (FormView ''Add Student'' errs vals), db)"
      by (auto simp: create_student_def split: prod.splits)
    from bad m2 have "snd (run_chains E (param ''id'' [isMongoId E] # studentValidators E) req) \<noteq> []" by auto
    then have u: "\<exists>errs vals. update_student E db req =
             (Render 422 ''editStudent'' (FormView ''Edit Student'' errs vals), db)"
      by (auto simp: update_student_def Let_def split: prod.splits)
    from c u show "(\<exists>errs vals. create_student E oid db req =
             (Render 422 ''addStudent'' (FormView ''Add Student'' errs vals), db))
          \<and> (\<exists>errs vals. update_student E db req =
             (Render 422 ''editStudent'' (FormView ''Edit Student'' errs vals), db))" by blast
  qed
  have s1: "\<forall>s. cast_student E oid ps = Inr s \<longrightarrow> p_gpa ps = Fin (gpa s) \<and> 0 \<le> gpa s \<and> gpa s \<le> 4"
    using cast_student_gpa [of E oid ps] by (auto simp: gpa_ok_iff)
  have s2: "\<not> gpa_ok (p_gpa ps) \<longrightarrow>
          cast_student E oid ps = Inl ValidationError
          \<and> save_student E oid ps db = Inl ValidationError
          \<and> (\<forall>i. findByIdAndUpdate E i ps db = Inl ValidationError \<or> findByIdAndUpdate E i ps db = Inl CastError)"
    using cast_student_gpa_bad [of ps E]
    by (auto simp: save_student_def findByIdAndUpdate_def split: option.splits)
  have b: "gpa_ok (Fin 0) \<and> gpa_ok (Fin 4)"
    by (simp add: gpa_ok_iff)
  show ?thesis
    using m1 m2 h s1 s2 b isFloat_test_iff [of E 0 4 g] gpa_ok_iff [of n] by blast
qed


theorem gpa_validation_witness:
  "isFloat_test sample_ext 0 4 ''0'' \<and> isFloat_test sample_ext 0 4 ''4''
   \<and> \<not> isFloat_test sample_ext 0 4 ''4.5'' \<and> \<not> isFloat_test sample_ext 0 4 ''-1''
   \<and> \<not> isFloat_test sample_ext 0 4 ''abc''
   \<and> (\<exists>errs vals. create_student sample_ext sample_oid []
         \<lparr>req_body = (obj (sample_student_body ''Ada Lovelace'' ''Physics''))(''gpa'' := JString ''4.5''),
          req_query = obj [], req_params = obj []\<rparr>
        = (Render 422 ''addStudent'' (FormView ''Add Student'' errs vals), []))
   \<and> \<not> gpa_ok (Fin 4.5)
   \<and> cast_student sample_ext sample_oid
        \<lparr>p_name = JString ''Ada Lovelace'', p_rollNumber = JString ''CS-101'',
         p_email = JString ''ada@uni.example'', p_department = JString ''Physics'', p_gpa = Fin 4.5\<rparr>
       = Inl ValidationError
   \<and> cast_student sample_ext sample_oid
        \<lparr>p_name = JString ''Ada Lovelace'', p_rollNumber = JString ''CS-101'',
         p_email = JString ''ada@uni.example'', p_department = JString ''Physics'', p_gpa = Fin 4\<rparr>
       = Inr \<lparr>student_id = sample_oid, name = ''Ada Lovelace'', rollNumber = ''cs-101'',
              email = ''ada@uni.example'', department = ''Physics'', gpa = 4\<rparr>"
proof -
  let ?r = "\<lparr>req_body = (obj (sample_student_body ''Ada Lovelace'' ''Physics''))(''gpa'' := JString ''4.5''),
          req_query = obj [], req_params = obj []\<rparr>"
  let ?bad = "\<lparr>p_name = JString ''Ada Lovelace'', p_rollNumber = JString ''CS-101'',
         p_email = JString ''ada@uni.example'', p_department = JString ''Physics'', p_gpa = Fin 4.5\<rparr>"
  let ?good = "\<lparr>p_name = JString ''Ada Lovelace'', p_rollNumber = JString ''CS-101'',
         p_email = JString ''ada@uni.example'', p_department = JString ''Physics'', p_gpa = Fin 4\<rparr>"
  have f: "isFloat_test sample_ext 0 4 ''0''" "isFloat_test sample_ext 0 4 ''4''"
    "\<not> isFloat_test sample_ext 0 4 ''4.5''" "\<not> isFloat_test sample_ext 0 4 ''-1''"
    "\<not> isFloat_test sample_ext 0 4 ''abc''"
    by (simp_all add: sample_simps)
  have g: "toString sample_ext (req_body ?r ''gpa'') = ''4.5''"
    by simp
  have nb: "\<not> gpa_ok (p_gpa ?bad)"
    by (simp add: gpa_ok_def num_ge_def)
  have good: "cast_student sample_ext sample_oid ?good
       = Inr \<lparr>student_id = sample_oid, name = ''Ada Lovelace'', rollNumber = ''cs-101'',
              email = ''ada@uni.example'', department = ''Physics'', gpa = 4\<rparr>"
    by (simp add: sample_simps)
  have a: "\<exists>errs vals. create_student sample_ext sample_oid [] ?r
        = (Render 422 ''addStudent'' (FormView ''Add Student'' errs vals), [])"
    using gpa_validation [where E = sample_ext and req = ?r and oid = sample_oid and db = "[]"] f(3) g
    by simp
  have b: "cast_student sample_ext sample_oid ?bad = Inl ValidationError"
    using gpa_validation [where E = sample_ext and ps = ?bad and oid = sample_oid] nb
    by blast
  show ?thesis using f a b good nb by simp
qed

subsection \<open>A request that fails validation\<close>

lemma signup_chains:
  fixes E req
  defines "un \<equiv> trim (toString E (req_body req ''username''))"
      and "em \<equiv> trim (toString E (req_body req ''email''))"
  shows "run_chains E (signupValidators E) req =
     (req\<lparr>req_body := (req_body req)(''username'' := JString un, ''email'' := normalizeEmail E em)\<rparr>,
      (if 3 \<le> length un \<and> length un \<le> 30 then []
       else [''Username must be between 3 and 30 characters''])
      @ (if un \<noteq> [] \<and> list_all usernameChar un then []
         else [''Username can only contain letters, numbers, and underscores''])
      @ (if isEmail E em then [] else [''Please enter a valid email address''])
      @ (if 6 \<le> length (toString E (req_body req ''password'')) then []
         else [''Password must be at least 6 characters long''])
      @ (if strict_eq (req_body req ''confirmPassword'') (req_body req ''password'') then []
         else [''Password confirmation does not match password'']))"
  unfolding run_chains_def signupValidators_def un_def em_def
  apply (simp add: run_chain_body trim_s_def withMessage_def isLength_def
      matches_class_def isEmail_v_def normalizeEmail_s_def
      run_item_std run_item_custom
      del: run_item.simps(2,3) split del: if_split cong: if_cong)
  apply simp
  done

lemma login_chains:
  fixes E req
  defines "em \<equiv> trim (toString E (req_body req ''email''))"
  shows "run_chains E (loginValidators E) req =
     (req\<lparr>req_body := (req_body req)(''email'' := normalizeEmail E em)\<rparr>,
      (if isEmail E em then [] else [''Please enter a valid email address''])
      @ (if toString E (req_body req ''password'') \<noteq> [] then [] else [''Password is required'']))"
  unfolding run_chains_def loginValidators_def em_def
  by (simp add: run_chain_body trim_s_def withMessage_def notEmpty_def
      isEmail_v_def normalizeEmail_s_def
      run_item_std run_item_custom
      del: run_item.simps(2,3) split del: if_split cong: if_cong)

lemma student_chains_body:
  "req_body (fst (fold (run_chain E) (studentValidators E) (req, errs))) =
     (req_body req)(''name'' := JString (trim (toString E (req_body req ''name''))),
        ''rollNumber'' := JString (trim (toString E (req_body req ''rollNumber''))),
        ''email'' := normalizeEmail E (trim (toString E (req_body req ''email''))),
        ''department'' := JString (trim (toString E (req_body req ''department''))))"
  by (simp add: student_chains_fold)

lemma student_chains_params:
  "req_params (fst (fold (run_chain E) (studentValidators E) (req, errs))) = req_params req"
  by (simp add: student_chains_fold)

text \<open>
  C4 (as amended). For every create, update, signup or login request that fails field
  validation, the handler answers with status 422 and renders the form again with the
  list of error messages and with the request body as the chains' sanitizers left it:
  name, rollNumber, department and username trimmed, email trimmed and normalized, every
  other field as submitted (the update form also gets the id). Nothing is written to the
  store or the session.
\<close>

theorem validation_failure_response:
  "(snd (run_chains E (studentValidators E) req) \<noteq> [] \<longrightarrow>
      create_student E oid sdb req =
        (Render 422 ''addStudent'' (FormView ''Add Student'' (snd (run_chains E (studentValidators E) req))
           ((req_body req)(''name'' := JString (trim (toString E (req_body req ''name''))),
              ''rollNumber'' := JString (trim (toString E (req_body req ''rollNumber''))),
              ''email'' := normalizeEmail E (trim (toString E (req_body req ''email''))),
              ''department'' := JString (trim (toString E (req_body req ''department'')))))), sdb))
   \<and> (snd (run_chains E (param ''id'' [isMongoId E] # studentValidators E) req) \<noteq> [] \<longrightarrow>
      update_student E sdb req =
        (Render 422 ''editStudent'' (FormView ''Edit Student''
           (snd (run_chains E (param ''id'' [isMongoId E] # studentValidators E) req))
           ((req_body req)(''name'' := JString (trim (toString E (req_body req ''name''))),
              ''rollNumber'' := JString (trim (toString E (req_body req ''rollNumber''))),
              ''email'' := normalizeEmail E (trim (toString E (req_body req ''email''))),
              ''department'' := JString (trim (toString E (req_body req ''department''))),
              ''_id'' := req_params req ''id''))), sdb))
   \<and> (snd (run_chains E (signupValidators E) req) \<noteq> [] \<longrightarrow>
      signup E oid udb req =
        (Render 422 ''signup'' (FormView ''Sign Up'' (snd (run_chains E (signupValidators E) req))
           ((req_body req)(''username'' := JString (trim (toString E (req_body req ''username''))),
              ''email'' := normalizeEmail E (trim (toString E (req_body req ''email'')))))), udb))
   \<and> (snd (run_chains E (loginValidators E) req) \<noteq> [] \<longrightarrow>
      login E udb session req =
        (Render 422 ''login'' (FormView ''Login'' (snd (run_chains E (loginValidators E) req))
           ((req_body req)(''email'' := normalizeEmail E (trim (toString E (req_body req ''email'')))))),
         session))"
proof -
  have c: "snd (run_chains E (studentValidators E) req) \<noteq> [] \<longrightarrow>
      create_student E oid sdb req =
        (Render 422 ''addStudent'' (FormView ''Add Student'' (snd (run_chains E (studentValidators E) req))
           (req_body (fst (run_chains E (studentValidators E) req)))), sdb)"
    by (simp add: create_student_def split: prod.splits)
  have u: "snd (run_chains E (param ''id'' [isMongoId E] # studentValidators E) req) \<noteq> [] \<longrightarrow>
      update_student E sdb req =
        (Render 422 ''editStudent'' (FormView ''Edit Student''
           (snd (run_chains E (param ''id'' [isMongoId E] # studentValidators E) req))
           ((req_body (fst (run_chains E (param ''id'' [isMongoId E] # studentValidators E) req)))
              (''_id'' := req_params (fst (run_chains E (param ''id'' [isMongoId E] # studentValidators E) req)) ''id''))), sdb)"
    by (simp add: update_student_def Let_def split: prod.splits)
  have s: "snd (run_chains E (signupValidators E) req) \<noteq> [] \<longrightarrow>
      signup E oid udb req =
        (Render 422 ''signup'' (FormView ''Sign Up'' (snd (run_chains E (signupValidators E) req))
           (req_body (fst (run_chains E (signupValidators E) req)))), udb)"
    by (simp add: signup_def Let_def split: prod.splits)
  have l: "snd (run_chains E (loginValidators E) req) \<noteq> [] \<longrightarrow>
      login E udb session req =
        (Render 422 ''login'' (FormView ''Login'' (snd (run_chains E (loginValidators E) req))
           (req_body (fst (run_chains E (loginValidators E) req)))), session)"
    by (simp add: login_def Let_def split: prod.splits)
  have bc: "req_body (fst (run_chains E (studentValidators E) req)) =
      (req_body req)(''name'' := JString (trim (toString E (req_body req ''name''))),
              ''rollNumber'' := JString (trim (toString E (req_body req ''rollNumber''))),
              ''email'' := normalizeEmail E (trim (toString E (req_body req ''email''))),
              ''department'' := JString (trim (toString E (req_body req ''department''))))"
    by (simp add: student_chains student_chains_body)
  have bu: "req_body (fst (run_chains E (param ''id'' [isMongoId E] # studentValidators E) req)) =
      (req_body req)(''name'' := JString (trim (toString E (req_body req ''name''))),
              ''rollNumber'' := JString (trim (toString E (req_body req ''rollNumber''))),
              ''email'' := normalizeEmail E (trim (toString E (req_body req ''email''))),
              ''department'' := JString (trim (toString E (req_body req ''department''))))"
      "req_params (fst (run_chains E (param ''id'' [isMongoId E] # studentValidators E) req)) = req_params req"
    by (simp_all add: update_chains student_chains_body student_chains_params)
  have bs: "req_body (fst (run_chains E (signupValidators E) req)) =
      (req_body req)(''username'' := JString (trim (toString E (req_body req ''username''))),
              ''email'' := normalizeEmail E (trim (toString E (req_body req ''email''))))"
    by (simp add: signup_chains)
  have bl: "req_body (fst (run_chains E (loginValidators E) req)) =
      (req_body req)(''email'' := normalizeEmail E (trim (toString E (req_body req ''email''))))"
    by (simp add: login_chains)
  show ?thesis
    using c u s l unfolding bc bu bs bl by blast
qed


lemmas sample_auth_simps =
  sample_signup_body_def sample_login_body_def sample_users_def strict_eq_def
  findOne_email_def findOne_email_or_username_def

theorem validation_failure_response_witness:
  "create_student sample_ext sample_oid [] (request_of (sample_student_body '' A '' ''Physics'') [] []) =
     (Render 422 ''addStudent'' (FormView ''Add Student'' [''Invalid value'']
        ((obj (sample_student_body '' A '' ''Physics''))
           (''name'' := JString ''A'', ''rollNumber'' := JString ''CS-101'',
            ''email'' := JString ''ada@uni.example'', ''department'' := JString ''custom''))), [])
   \<and> update_student sample_ext [] (request_of (sample_student_body '' A '' ''Physics'') [] [(''id'', JString sample_oid)]) =
     (Render 422 ''editStudent'' (FormView ''Edit Student'' [''Invalid value'']
        ((obj (sample_student_body '' A '' ''Physics''))
           (''name'' := JString ''A'', ''rollNumber'' := JString ''CS-101'',
            ''email'' := JString ''ada@uni.example'', ''department'' := JString ''custom'',
            ''_id'' := JString sample_oid))), [])
   \<and> signup sample_ext sample_oid [] (request_of (sample_signup_body '' ab '' ''secret1'') [] []) =
     (Render 422 ''signup'' (FormView ''Sign Up'' [''Username must be between 3 and 30 characters'']
        ((obj (sample_signup_body '' ab '' ''secret1''))
           (''username'' := JString ''ab'', ''email'' := JString ''bob@uni.example''))), [])
   \<and> login sample_ext sample_users (obj []) (request_of (sample_login_body '' Bob@Uni.Example '' []) [] []) =
     (Render 422 ''login'' (FormView ''Login'' [''Password is required'']
        ((obj (sample_login_body '' Bob@Uni.Example '' []))(''email'' := JString ''bob@uni.example''))), obj [])"
proof -
  let ?c = "request_of (sample_student_body '' A '' ''Physics'') [] []"
  let ?u = "request_of (sample_student_body '' A '' ''Physics'') [] [(''id'', JString sample_oid)]"
  let ?s = "request_of (sample_signup_body '' ab '' ''secret1'') [] []"
  let ?l = "request_of (sample_login_body '' Bob@Uni.Example '' []) [] []"
  have ec: "snd (run_chains sample_ext (studentValidators sample_ext) ?c) = [''Invalid value'']"
    by (simp add: student_chains student_chains_fold sample_simps)
  have eu: "snd (run_chains sample_ext (param ''id'' [isMongoId sample_ext] # studentValidators sample_ext) ?u) = [''Invalid value'']"
    by (simp add: update_chains student_chains_fold sample_simps)
  have es: "snd (run_chains sample_ext (signupValidators sample_ext) ?s) = [''Username must be between 3 and 30 characters'']"
    by (simp add: signup_chains sample_simps sample_auth_simps)
  have el: "snd (run_chains sample_ext (loginValidators sample_ext) ?l) = [''Password is required'']"
    by (simp add: login_chains sample_simps sample_auth_simps)
  have rb: "req_body ?c = obj (sample_student_body '' A '' ''Physics'')"
      "req_body ?u = obj (sample_student_body '' A '' ''Physics'')"
      "req_params ?u ''id'' = JString sample_oid"
      "req_body ?s = obj (sample_signup_body '' ab '' ''secret1'')"
      "req_body ?l = obj (sample_login_body '' Bob@Uni.Example '' [])"
    by (simp_all add: request_of_def obj_def)
  have vc: "trim (toString sample_ext (obj (sample_student_body '' A '' ''Physics'') ''name'')) = ''A''"
      "trim (toString sample_ext (obj (sample_student_body '' A '' ''Physics'') ''rollNumber'')) = ''CS-101''"
      "normalizeEmail sample_ext (trim (toString sample_ext (obj (sample_student_body '' A '' ''Physics'') ''email'')))
         = JString ''ada@uni.example''"
      "trim (toString sample_ext (obj (sample_student_body '' A '' ''Physics'') ''department'')) = ''custom''"
    by (simp_all add: sample_simps)
  have vs: "trim (toString sample_ext (obj (sample_signup_body '' ab '' ''secret1'') ''username'')) = ''ab''"
      "normalizeEmail sample_ext (trim (toString sample_ext (obj (sample_signup_body '' ab '' ''secret1'') ''email'')))
         = JString ''bob@uni.example''"
    by (simp_all add: sample_simps sample_auth_simps)
  have vl: "normalizeEmail sample_ext (trim (toString sample_ext (obj (sample_login_body '' Bob@Uni.Example '' []) ''email'')))
         = JString ''bob@uni.example''"
    by (simp_all add: sample_simps sample_auth_simps)
  have a: "create_student sample_ext sample_oid [] ?c =
     (Render 422 ''addStudent'' (FormView ''Add Student'' [''Invalid value'']
        ((obj (sample_student_body '' A '' ''Physics''))
           (''name'' := JString ''A'', ''rollNumber'' := JString ''CS-101'',
            ''email'' := JString ''ada@uni.example'', ''department'' := JString ''custom''))), [])"
    using validation_failure_response [where E = sample_ext and req = ?c and oid = sample_oid and sdb = "[]"]
    unfolding ec rb vc by simp
  have b: "update_student sample_ext [] ?u =
     (Render 422 ''editStudent'' (FormView ''Edit Student'' [''Invalid value'']
        ((obj (sample_student_body '' A '' ''Physics''))
           (''name'' := JString ''A'', ''rollNumber'' := JString ''CS-101'',
            ''email'' := JString ''ada@uni.example'', ''department'' := JString ''custom'',
            ''_id'' := JString sample_oid))), [])"
    using validation_failure_response [where E = sample_ext and req = ?u and sdb = "[]"]
    unfolding eu rb vc by simp
  have c: "signup sample_ext sample_oid [] ?s =
     (Render 422 ''signup'' (FormView ''Sign Up'' [''Username must be between 3 and 30 characters'']
        ((obj (sample_signup_body '' ab '' ''secret1''))
           (''username'' := JString ''ab'', ''email'' := JString ''bob@uni.example''))), [])"
    using validation_failure_response [where E = sample_ext and req = ?s and oid = sample_oid and udb = "[]"]
    unfolding es rb vs by simp
  have d: "login sample_ext sample_users (obj []) ?l =
     (Render 422 ''login'' (FormView ''Login'' [''Password is required'']
        ((obj (sample_login_body '' Bob@Uni.Example '' []))(''email'' := JString ''bob@uni.example''))), obj [])"
    using validation_failure_response [where E = sample_ext and req = ?l and udb = sample_users and session = "obj []"]
    unfolding el rb vl by simp
  show ?thesis using a b c d by simp
qed

text \<open>
  The values rendered are not the ones typed: a name submitted with surrounding blanks
  comes back trimmed, and an e-mail address comes back trimmed and normalized.
\<close>

theorem validation_failure_response_counterexample:
  "req_body (request_of (sample_student_body '' A '' ''Physics'') [] []) ''name'' = JString '' A ''
   \<and> (case fst (create_student sample_ext sample_oid []
                  (request_of (sample_student_body '' A '' ''Physics'') [] [])) of
        Render st view (FormView t errs vals) \<Rightarrow>
          st = 422 \<and> errs = [''Invalid value''] \<and> vals ''name'' = JString ''A''
      | other \<Rightarrow> False)
   \<and> req_body (request_of (sample_login_body '' Bob@Uni.Example '' []) [] []) ''email''
        = JString '' Bob@Uni.Example ''
   \<and> (case fst (login sample_ext sample_users (obj [])
                  (request_of (sample_login_body '' Bob@Uni.Example '' []) [] [])) of
        Render st view (FormView t errs vals) \<Rightarrow>
          st = 422 \<and> errs = [''Password is required''] \<and> vals ''email'' = JString ''bob@uni.example''
      | other \<Rightarrow> False)"
  by (simp add: create_student_def login_def student_chains student_chains_fold login_chains
      sample_simps sample_auth_simps)

subsection \<open>Login failures\<close>





subsection \<open>Passwords: hashing on save and the serialized user\<close>

lemma find_map_replace:
  "list_ex (\<lambda>d. user_id d = i) db \<Longrightarrow> user_id u = i \<Longrightarrow>
   find (\<lambda>d. user_id d = i) (map (\<lambda>d. if user_id d = i then u else d) db) = Some u"
  by (induction db) auto

lemma find_append_new:
  "\<not> list_ex (\<lambda>d. user_id d = i) db \<Longrightarrow> user_id u = i \<Longrightarrow>
   find (\<lambda>d. user_id d = i) (db @ [u]) = Some u"
  by (induction db) auto

lemma find_store_user: "find (\<lambda>d. user_id d = user_id u) (store_user u db) = Some u"
  by (simp add: store_user_def find_map_replace find_append_new)

lemma pre_save_calls:
  "fst (pre_save E this) =
     (if isModified this ''password'' then [GenSalt 12, Hash (password this) (genSalt E 12)] else [])"
  by (simp add: pre_save_def Let_def split: option.split)

lemma pre_save_result:
  "snd (pre_save E this) =
     (if isModified this ''password''
      then (case bcrypt_hash E (password this) (genSalt E 12) of
              Some h \<Rightarrow> Inr (this\<lparr>password := h\<rparr>) | None \<Rightarrow> Inl BcryptError)
      else Inr this)"
  by (simp add: pre_save_def Let_def split: option.split)

lemma save_user_Inr:
  assumes "save_user E this db = (calls, Inr db')"
  shows "\<exists>hashed. pre_save E this = (calls, Inr hashed) \<and> db' = store_user (user.truncate hashed) db"
  using assms
  by (auto simp: save_user_def split: if_splits prod.splits sum.splits option.splits)

text \<open>
  C8. On every save of a user document, the pre-save hook calls bcrypt (a salt of cost
  12, then the hash of the password with that salt) exactly when the password path is
  modified, and then the document goes on with the hash in place of the password. When
  the password path is not modified the hook makes no call and hands the document on
  unchanged, so a save that succeeds stores the password the document was loaded with:
  the stored hash is not hashed again.
\<close>

theorem pre_save_hashes_iff_modified:
  "(fst (pre_save E this) = [GenSalt 12, Hash (password this) (genSalt E 12)]) = isModified this ''password''
   \<and> (fst (pre_save E this) = []) = (\<not> isModified this ''password'')
   \<and> (\<not> isModified this ''password'' \<longrightarrow> pre_save E this = ([], Inr this))
   \<and> (\<forall>h. isModified this ''password'' \<and> bcrypt_hash E (password this) (genSalt E 12) = Some h \<longrightarrow>
         snd (pre_save E this) = Inr (this\<lparr>password := h\<rparr>))
   \<and> (isModified this ''password'' \<and> bcrypt_hash E (password this) (genSalt E 12) = None \<longrightarrow>
         snd (pre_save E this) = Inl BcryptError)
   \<and> (\<forall>calls db'. save_user E this db = (calls, Inr db') \<longrightarrow>
         (\<exists>u. find (\<lambda>d. user_id d = user_id this) db' = Some u
            \<and> (if isModified this ''password''
               then calls = [GenSalt 12, Hash (password this) (genSalt E 12)]
                    \<and> bcrypt_hash E (password this) (genSalt E 12) = Some (password u)
               else calls = [] \<and> password u = password this)))"
proof -
  have a: "(fst (pre_save E this) = [GenSalt 12, Hash (password this) (genSalt E 12)]) = isModified this ''password''"
      "(fst (pre_save E this) = []) = (\<not> isModified this ''password'')"
    by (simp_all add: pre_save_calls)
  have b: "\<not> isModified this ''password'' \<longrightarrow> pre_save E this = ([], Inr this)"
    by (simp add: pre_save_def)
  have c: "\<forall>h. isModified this ''password'' \<and> bcrypt_hash E (password this) (genSalt E 12) = Some h \<longrightarrow>
         snd (pre_save E this) = Inr (this\<lparr>password := h\<rparr>)"
    by (simp add: pre_save_result)
  have d: "isModified this ''password'' \<and> bcrypt_hash E (password this) (genSalt E 12) = None \<longrightarrow>
         snd (pre_save E this) = Inl BcryptError"
    by (simp add: pre_save_result)
  have e: "\<exists>u. find (\<lambda>d. user_id d = user_id this) db' = Some u
            \<and> (if isModified this ''password''
               then calls = [GenSalt 12, Hash (password this) (genSalt E 12)]
                    \<and> bcrypt_hash E (password this) (genSalt E 12) = Some (password u)
               else calls = [] \<and> password u = password this)"
    if sv: "save_user E this db = (calls, Inr db')" for calls db'
  proof -
    from save_user_Inr [OF sv] obtain hashed where
      h: "pre_save E this = (calls, Inr hashed)" "db' = store_user (user.truncate hashed) db"
      by blast
    from h(1) have cs: "calls = fst (pre_save E this)" and r: "snd (pre_save E this) = Inr hashed"
      by simp_all
    have idh: "user_id (user.truncate hashed) = user_id this"
      using r by (auto simp: pre_save_result user.truncate_def split: if_splits option.splits)
    have f: "find (\<lambda>d. user_id d = user_id this) db' = Some (user.truncate hashed)"
      using find_store_user [of "user.truncate hashed" db] by (simp add: h(2) idh)
    have p: "if isModified this ''password''
               then bcrypt_hash E (password this) (genSalt E 12) = Some (password (user.truncate hashed))
               else password (user.truncate hashed) = password this"
      using r by (auto simp: pre_save_result user.truncate_def split: if_splits option.splits)
    show ?thesis using f p cs by (auto simp: pre_save_calls)
  qed
  show ?thesis using a b c d e by blast
qed


theorem pre_save_hashes_iff_modified_witness:
  "\<not> isModified (sample_document (sample_salt @ rev ''secret1'') ''admin'' [''role'']) ''password''
   \<and> save_user sample_ext (sample_document (sample_salt @ rev ''secret1'') ''admin'' [''role'']) sample_users =
       ([], Inr [(hd sample_users)\<lparr>role := ''admin''\<rparr>, sample_users ! 1])
   \<and> isModified (sample_document ''newpass1'' ''user'' [''password'']) ''password''
   \<and> save_user sample_ext (sample_document ''newpass1'' ''user'' [''password'']) sample_users =
       ([GenSalt 12, Hash ''newpass1'' sample_salt],
        Inr [(hd sample_users)\<lparr>password := sample_salt @ rev ''newpass1''\<rparr>, sample_users ! 1])"
proof -
  let ?r = "sample_document (sample_salt @ rev ''secret1'') ''admin'' [''role'']"
  let ?p = "sample_document ''newpass1'' ''user'' [''password'']"
  have m: "\<not> isModified ?r ''password''" "isModified ?p ''password''"
    by (simp_all add: sample_document_def isModified_def)
  have h: "bcrypt_hash sample_ext (password ?p) (genSalt sample_ext 12) = Some (sample_salt @ rev ''newpass1'')"
    by (simp add: sample_ext_def sample_document_def)
  have pr: "pre_save sample_ext ?r = ([], Inr ?r)"
    using pre_save_hashes_iff_modified [of sample_ext ?r] m(1) by blast
  have pp: "pre_save sample_ext ?p =
      ([GenSalt 12, Hash ''newpass1'' sample_salt], Inr (?p\<lparr>password := sample_salt @ rev ''newpass1''\<rparr>))"
    using pre_save_hashes_iff_modified [of sample_ext ?p] m(2) h
    by (simp add: prod_eq_iff sample_ext_def sample_document_def)
  have a: "save_user sample_ext ?r sample_users =
       ([], Inr [(hd sample_users)\<lparr>role := ''admin''\<rparr>, sample_users ! 1])"
    unfolding save_user_def pr
    by (simp add: sample_simps sample_auth_simps sample_document_def user_ok_def username_ok_def
        password_ok_def role_ok_def user_duplicate_key_def store_user_def user.truncate_def)
  have b: "save_user sample_ext ?p sample_users =
       ([GenSalt 12, Hash ''newpass1'' sample_salt],
        Inr [(hd sample_users)\<lparr>password := sample_salt @ rev ''newpass1''\<rparr>, sample_users ! 1])"
    unfolding save_user_def pp
    by (simp add: sample_simps sample_auth_simps sample_document_def user_ok_def username_ok_def
        password_ok_def role_ok_def user_duplicate_key_def store_user_def user.truncate_def)
  show ?thesis using m a b by simp
qed

lemma signup_redirect:
  assumes "signup E oid db req = (Redirect url, db')"
  shows "\<exists>this. new_User E oid (req_body (fst (run_chains E (signupValidators E) req)) ''username'')
            (req_body (fst (run_chains E (signupValidators E) req)) ''email'')
            (req_body (fst (run_chains E (signupValidators E) req)) ''password'') = Inr this
          \<and> snd (save_user E this db) = Inr db'"
  using assms
  by (auto simp: signup_def Let_def split: prod.splits if_splits option.splits sum.splits)

lemma signup_not_redirect:
  assumes "signup E oid db req = (resp, db')" "\<forall>url. resp \<noteq> Redirect url"
  shows "db' = db"
  using assms
  by (auto simp: signup_def Let_def split: prod.splits if_splits option.splits sum.splits)

lemma new_User_Inr:
  "new_User E oid u e p = Inr this \<Longrightarrow>
     user_id this = oid \<and> cast_string E p = Some (password this) \<and> isModified this ''password''"
  by (auto simp: new_User_def isModified_def split: option.splits)

lemma login_session_password:
  "snd (login E udb session req) ''password'' = session ''password''"
  by (simp add: login_def Let_def split: prod.splits option.splits sum.splits)

text \<open>
  C7. For every user, the object toJSON returns has no password property and agrees with
  toObject on every other property. A signup that succeeds is the only write to the user
  store: the user it stores carries, as its password, the value bcrypt returned for the
  submitted password and a fresh salt of cost 12, not the submitted string; any other
  signup response leaves the store as it was. The session written at login holds no
  password.
\<close>

theorem toJSON_omits_password:
  "''password'' \<notin> dom (toJSON u)
   \<and> dom (toJSON u) = dom (toObject u) - {''password''}
   \<and> (\<forall>k. k \<noteq> ''password'' \<longrightarrow> toJSON u k = toObject u k)
   \<and> (\<forall>url db'. signup E oid db req = (Redirect url, db') \<longrightarrow>
         (\<exists>v p h. db' = store_user v db \<and> user_id v = oid
            \<and> cast_string E (req_body req ''password'') = Some p
            \<and> bcrypt_hash E p (genSalt E 12) = Some h \<and> password v = h
            \<and> toJSON v ''password'' = None))
   \<and> (\<forall>resp db'. signup E oid db req = (resp, db') \<and> (\<forall>url. resp \<noteq> Redirect url) \<longrightarrow> db' = db)
   \<and> snd (login E db session req) ''password'' = session ''password''"
proof -
  have a: "''password'' \<notin> dom (toJSON u)" "dom (toJSON u) = dom (toObject u) - {''password''}"
      "\<forall>k. k \<noteq> ''password'' \<longrightarrow> toJSON u k = toObject u k"
    by (auto simp: toJSON_def Let_def)
  have jp: "toJSON v ''password'' = None" for v
    by (simp add: toJSON_def Let_def)
  have b: "\<exists>v p h. db' = store_user v db \<and> user_id v = oid
            \<and> cast_string E (req_body req ''password'') = Some p
            \<and> bcrypt_hash E p (genSalt E 12) = Some h \<and> password v = h
            \<and> toJSON v ''password'' = None"
    if sg: "signup E oid db req = (Redirect url, db')" for url db'
  proof -
    have pwd: "req_body (fst (run_chains E (signupValidators E) req)) ''password'' = req_body req ''password''"
      by (simp add: signup_chains)
    from signup_redirect [OF sg] pwd obtain this where
      n: "new_User E oid (req_body (fst (run_chains E (signupValidators E) req)) ''username'')
            (req_body (fst (run_chains E (signupValidators E) req)) ''email'')
            (req_body req ''password'') = Inr this"
      and sv: "snd (save_user E this db) = Inr db'"
      by auto
    from new_User_Inr [OF n] have t: "user_id this = oid"
        "cast_string E (req_body req ''password'') = Some (password this)"
        "isModified this ''password''"
      by simp_all
    from sv have "save_user E this db = (fst (save_user E this db), Inr db')"
      by (simp add: prod_eq_iff)
    from save_user_Inr [OF this] obtain hashed where
      h: "snd (pre_save E this) = Inr hashed" "db' = store_user (user.truncate hashed) db"
      by auto
    from h(1) t(3) obtain hh where
      hh: "bcrypt_hash E (password this) (genSalt E 12) = Some hh" "hashed = this\<lparr>password := hh\<rparr>"
      by (auto simp: pre_save_result split: option.splits)
    have "user_id (user.truncate hashed) = oid" "password (user.truncate hashed) = hh"
      using hh(2) t(1) by (simp_all add: user.truncate_def)
    with h(2) t(2) hh(1) show ?thesis
      using jp [of "user.truncate hashed"] by blast
  qed
  have c: "\<forall>resp db'. signup E oid db req = (resp, db') \<and> (\<forall>url. resp \<noteq> Redirect url) \<longrightarrow> db' = db"
    using signup_not_redirect by blast
  show ?thesis
    using a b c login_session_password [of E db session req] by blast
qed


lemma sample_signup_dave:
  "signup sample_ext sample_oid [] (request_of (sample_signup_body ''dave'' ''secret9'') [] []) =
     (Redirect ''/login?msg=signup_success'',
      [\<lparr>user_id = sample_oid, username = ''dave'', user_email = ''bob@uni.example'',
        password = sample_salt @ rev ''secret9'', role = ''user'', isActive = True\<rparr>])"
  by (simp add: signup_def signup_chains new_User_def sample_simps sample_auth_simps
      save_user_def pre_save_def isModified_def user_ok_def username_ok_def
      password_ok_def role_ok_def user_duplicate_key_def store_user_def user.truncate_def)

lemma sample_signup_taken:
  "signup sample_ext sample_oid sample_users (request_of (sample_signup_body ''dave'' ''secret9'') [] []) =
     (Render 409 ''signup'' (FormView ''Sign Up'' [''Email already registered'']
        ((obj (sample_signup_body ''dave'' ''secret9''))
           (''username'' := JString ''dave'', ''email'' := JString ''bob@uni.example''))), sample_users)"
  by (simp add: signup_def signup_chains sample_simps sample_auth_simps)

theorem toJSON_omits_password_witness:
  "signup sample_ext sample_oid [] (request_of (sample_signup_body ''dave'' ''secret9'') [] []) =
     (Redirect ''/login?msg=signup_success'',
      [\<lparr>user_id = sample_oid, username = ''dave'', user_email = ''bob@uni.example'',
        password = sample_salt @ rev ''secret9'', role = ''user'', isActive = True\<rparr>])
   \<and> bcrypt_hash sample_ext ''secret9'' (genSalt sample_ext 12) = Some (sample_salt @ rev ''secret9'')
   \<and> toJSON \<lparr>user_id = sample_oid, username = ''dave'', user_email = ''bob@uni.example'',
        password = sample_salt @ rev ''secret9'', role = ''user'', isActive = True\<rparr> ''password'' = None
   \<and> toJSON \<lparr>user_id = sample_oid, username = ''dave'', user_email = ''bob@uni.example'',
        password = sample_salt @ rev ''secret9'', role = ''user'', isActive = True\<rparr> ''username''
        = Some (JString ''dave'')
   \<and> snd (signup sample_ext sample_oid sample_users
             (request_of (sample_signup_body ''dave'' ''secret9'') [] [])) = sample_users"
proof -
  let ?u = "\<lparr>user_id = sample_oid, username = ''dave'', user_email = ''bob@uni.example'',
        password = sample_salt @ rev ''secret9'', role = ''user'', isActive = True\<rparr>"
  let ?r = "request_of (sample_signup_body ''dave'' ''secret9'') [] []"
  have h: "bcrypt_hash sample_ext ''secret9'' (genSalt sample_ext 12) = Some (sample_salt @ rev ''secret9'')"
    by (simp add: sample_ext_def)
  have j: "toJSON ?u ''password'' = None \<and> toJSON ?u ''username'' = Some (JString ''dave'')"
    using toJSON_omits_password [where u = ?u] by (auto simp: toObject_def domIff)
  have t: "snd (signup sample_ext sample_oid sample_users ?r) = sample_users"
    using toJSON_omits_password [where E = sample_ext and oid = sample_oid and db = sample_users and req = ?r]
      sample_signup_taken
    by (auto simp: prod_eq_iff)
  have st: "\<exists>v p hh. [?u] = store_user v [] \<and> user_id v = sample_oid
      \<and> cast_string sample_ext (req_body ?r ''password'') = Some p
      \<and> bcrypt_hash sample_ext p (genSalt sample_ext 12) = Some hh \<and> password v = hh
      \<and> toJSON v ''password'' = None"
    using toJSON_omits_password [where E = sample_ext and oid = sample_oid and db = "[]" and req = ?r,
        THEN conjunct2, THEN conjunct2, THEN conjunct2, THEN conjunct1, rule_format,
        OF sample_signup_dave]
    by (elim exE conjE) (intro exI conjI, assumption+)
  from sample_signup_dave h j t show ?thesis by simp
qed

subsection \<open>Delete\<close>

lemma delete_chain: "fst (run_chains E [param ''id'' [isMongoId E]] req) = req"
  by (simp add: run_chains_def run_chain_param isMongoId_def)

text \<open>
  C9. For every syntactically valid student id (24 hexadecimal digits), the delete
  handler answers with the redirect to the list with the deleted indicator, whatever the
  collection holds; the documents with that id are gone afterwards and the others stay;
  when no document has the id the collection is unchanged and no error surfaces; and
  deleting a second time gives the same response and the same collection as deleting
  once.
\<close>

theorem delete_is_idempotent:
  assumes idp: "req_params req ''id'' = JString i" and valid: "isObjectIdHex i"
  shows "fst (delete_student E db req) = Redirect ''/students?msg=deleted''
    \<and> snd (delete_student E db req) = filter (\<lambda>d. student_id d \<noteq> toLowerCase i) db
    \<and> (\<not> list_ex (\<lambda>d. student_id d = toLowerCase i) db \<longrightarrow>
          delete_student E db req = (Redirect ''/students?msg=deleted'', db))
    \<and> delete_student E (snd (delete_student E db req)) req = delete_student E db req
    \<and> (\<forall>other. fst (delete_student E other req) = fst (delete_student E db req))"
proof -
  have d: "delete_student E x req =
      (Redirect ''/students?msg=deleted'', filter (\<lambda>d. student_id d \<noteq> toLowerCase i) x)" for x
    using idp valid by (simp add: delete_student_def delete_chain findByIdAndDelete_def)
  have n: "\<not> list_ex (\<lambda>d. student_id d = toLowerCase i) db \<longrightarrow>
      filter (\<lambda>d. student_id d \<noteq> toLowerCase i) db = db"
    by (auto simp: list_ex_iff filter_id_conv)
  show ?thesis using n by (simp add: d)
qed

theorem delete_is_idempotent_witness:
  "isObjectIdHex ''00000000000000000000000a''
   \<and> delete_student sample_ext [sample_student 0, sample_student 2]
        (request_of [] [] [(''id'', JString ''00000000000000000000000a'')])
      = (Redirect ''/students?msg=deleted'', [sample_student 2])
   \<and> delete_student sample_ext [sample_student 2]
        (request_of [] [] [(''id'', JString ''00000000000000000000000a'')])
      = (Redirect ''/students?msg=deleted'', [sample_student 2])"
proof -
  let ?r = "request_of [] [] [(''id'', JString ''00000000000000000000000a'')]"
  have p: "req_params ?r ''id'' = JString ''00000000000000000000000a''"
    by (simp add: request_of_def obj_def)
  have v: "isObjectIdHex ''00000000000000000000000a''"
    by (simp add: isObjectIdHex_def isHexChar_def)
  have ids: "student_id (sample_student 0) = ''00000000000000000000000a''"
      "student_id (sample_student 2) = ''00000000000000000000000c''"
      "toLowerCase ''00000000000000000000000a'' = ''00000000000000000000000a''"
    by code_simp+
  have a: "delete_student sample_ext [sample_student 0, sample_student 2] ?r
      = (Redirect ''/students?msg=deleted'', [sample_student 2])"
    using delete_is_idempotent [OF p v, of sample_ext "[sample_student 0, sample_student 2]"]
    by (simp add: prod_eq_iff ids)
  have b: "delete_student sample_ext [sample_student 2] ?r
      = (Redirect ''/students?msg=deleted'', [sample_student 2])"
    using delete_is_idempotent [OF p v, of sample_ext "[sample_student 2]"]
    by (simp add: prod_eq_iff ids)
  show ?thesis using v a b by simp
qed

end
